theory Spec2Isabelle
  imports Complex_Main "HOL-Library.Word"
begin

section \<open>XNavLib: the client facade of the XNav vision system\<close>

text \<open>
  A shallow embedding of \<^verbatim>\<open>roborio_library/include/XNavLib.h\<close> and
  \<^verbatim>\<open>roborio_library/src/XNavLib.cpp\<close>.

  \<^item> C++ \<^verbatim>\<open>int\<close> is a \<open>32 word\<close>, the transport's integer (\<^verbatim>\<open>int64_t\<close>) a \<open>64 word\<close>;
    \<^verbatim>\<open>static_cast<int>\<close> keeps the low 32 bits (\<open>ucast\<close>) and \<^verbatim>\<open>id < 0\<close> reads the
    word as two's complement (\<open>sint\<close>).
  \<^item> A \<^verbatim>\<open>double\<close> is only ever copied from a topic into a record, never computed
    with; it is a \<open>real\<close>.
  \<^item> The library is compiled in two ways, with and without \<^verbatim>\<open>WPILIB_AVAILABLE\<close>.
    Every function whose body has an \<^verbatim>\<open>#ifdef\<close> takes the flag as its first
    argument \<open>wpilib\<close>.
  \<^item> \<^verbatim>\<open>m_impl\<close> points to mutable state: the \<^verbatim>\<open>const\<close> queries that reach
    \<^verbatim>\<open>GetTagSubs\<close> insert into \<^verbatim>\<open>tag_subs\<close>, so they return the new \<open>Impl\<close> next to
    their result.
  \<^item> \<^verbatim>\<open>table\<close> is a null \<^verbatim>\<open>shared_ptr\<close> until \<^verbatim>\<open>Init\<close> has run; dereferencing it is
    the fault \<open>Null_table\<close>.
\<close>

subsection \<open>Value types (XNavLib.h)\<close>

type_synonym int64_t = "64 word"
type_synonym c_int = "32 word"
type_synonym double = real

record TagResult =
  id :: c_int
  tx :: double
  ty :: double
  x :: double
  y :: double
  z :: double
  distance :: double
  yaw :: double
  pitch :: double
  roll :: double

text \<open>The member initialisers of \<^verbatim>\<open>struct TagResult\<close>: what \<^verbatim>\<open>TagResult{}\<close> and
  \<^verbatim>\<open>TagResult t;\<close> give.\<close>

definition TagResult_default :: TagResult where
  "TagResult_default =
     \<lparr>TagResult.id = - 1, TagResult.tx = 0, TagResult.ty = 0, TagResult.x = 0,
      TagResult.y = 0, TagResult.z = 0, TagResult.distance = 0, TagResult.yaw = 0,
      TagResult.pitch = 0, TagResult.roll = 0\<rparr>"

record RobotPose =
  x :: double
  y :: double
  z :: double
  roll :: double
  pitch :: double
  yaw_deg :: double
  valid :: bool

definition RobotPose_default :: RobotPose where
  "RobotPose_default =
     \<lparr>RobotPose.x = 0, RobotPose.y = 0, RobotPose.z = 0, RobotPose.roll = 0,
      RobotPose.pitch = 0, RobotPose.yaw_deg = 0, RobotPose.valid = False\<rparr>"

record OffsetPoint =
  tag_id :: c_int
  x :: double
  y :: double
  z :: double
  direct_distance :: double
  tx :: double
  ty :: double
  valid :: bool

definition OffsetPoint_default :: OffsetPoint where
  "OffsetPoint_default =
     \<lparr>OffsetPoint.tag_id = - 1, OffsetPoint.x = 0, OffsetPoint.y = 0, OffsetPoint.z = 0,
      OffsetPoint.direct_distance = 0, OffsetPoint.tx = 0, OffsetPoint.ty = 0,
      OffsetPoint.valid = False\<rparr>"

record SystemStatus =
  status :: string
  fps :: double
  latency_ms :: double
  num_targets :: c_int
  nt_connected :: bool

definition SystemStatus_default :: SystemStatus where
  "SystemStatus_default =
     \<lparr>status = [], fps = 0, latency_ms = 0, num_targets = 0, nt_connected = False\<rparr>"

subsection \<open>The transport\<close>

text \<open>
  NetworkTables is not part of the repository. The definitions of this subsection stand
  for it; the library's own code starts at \<open>Impl\<close>.
\<close>

datatype Value =
    Boolean bool
  | Integer int64_t
  | Double double
  | String string
  | DoubleArray "double list"
  | IntegerArray "int64_t list"

text \<open>Modelled from the spec: the default transport instance (\<^verbatim>\<open>nt::NetworkTableInstance\<close>,
  absent from the sources) as the topic fabric of sections 1 and 9: the value last
  published on each topic path, the server address and client identity given to it, and
  its active peer connections.\<close>

record NetworkTableInstance =
  topics :: "string \<rightharpoonup> Value"
  server_addr :: "string option"
  client_identity :: "string option"
  connections :: "string list"

text \<open>Modelled from the spec: \<^verbatim>\<open>SetServer\<close> directs the transport to a server address,
  \<^verbatim>\<open>StartClient4\<close> starts its client role under an identity (section 4.5).\<close>

definition SetServer :: "string \<Rightarrow> NetworkTableInstance \<Rightarrow> NetworkTableInstance" where
  "SetServer addr nt = nt\<lparr>server_addr := Some addr\<rparr>"

definition StartClient4 :: "string \<Rightarrow> NetworkTableInstance \<Rightarrow> NetworkTableInstance" where
  "StartClient4 identity nt = nt\<lparr>client_identity := Some identity\<rparr>"

definition GetConnections :: "NetworkTableInstance \<Rightarrow> string list" where
  "GetConnections nt = connections nt"

text \<open>Modelled from the spec: subtable scoping (section 4.1). A table is the path it is
  rooted at, a topic the path of its table followed by its own name.\<close>

definition GetTable :: "string \<Rightarrow> string" where
  "GetTable name = name"

definition GetSubTable :: "string \<Rightarrow> string \<Rightarrow> string" where
  "GetSubTable t key = t @ ''/'' @ key"

definition GetTopic :: "string \<Rightarrow> string \<Rightarrow> string" where
  "GetTopic t key = t @ ''/'' @ key"

text \<open>Modelled from the spec: a typed subscriber (\<^verbatim>\<open>nt::DoubleSubscriber\<close> and its
  siblings). A default-constructed one is bound to no topic.\<close>

record 'a Subscriber =
  sub_topic :: "string option"
  sub_default :: 'a

definition Subscribe :: "string \<Rightarrow> 'a \<Rightarrow> 'a Subscriber" where
  "Subscribe path d = \<lparr>sub_topic = Some path, sub_default = d\<rparr>"

definition unbound :: "'a \<Rightarrow> 'a Subscriber" where
  "unbound d = \<lparr>sub_topic = None, sub_default = d\<rparr>"

text \<open>Modelled from the spec: "a subscriber has never received a publication: the declared
  default is returned" (section 7). \<open>Get_or\<close> is \<^verbatim>\<open>Get(defaultValue)\<close>, \<open>Get\<close> is
  \<^verbatim>\<open>Get()\<close>, which falls back on the default given to \<^verbatim>\<open>Subscribe\<close>. \<open>proj\<close> is the
  subscriber's type: a value of another type is no value for it.\<close>

definition Get_or :: "(Value \<Rightarrow> 'a option) \<Rightarrow> 'a Subscriber \<Rightarrow> 'a \<Rightarrow> NetworkTableInstance \<Rightarrow> 'a" where
  "Get_or proj s d nt =
     (case sub_topic s of
        None \<Rightarrow> d
      | Some p \<Rightarrow>
          (case topics nt p of
             None \<Rightarrow> d
           | Some v \<Rightarrow> (case proj v of None \<Rightarrow> d | Some a \<Rightarrow> a)))"

definition Get :: "(Value \<Rightarrow> 'a option) \<Rightarrow> 'a Subscriber \<Rightarrow> NetworkTableInstance \<Rightarrow> 'a" where
  "Get proj s nt = Get_or proj s (sub_default s) nt"

fun as_Boolean :: "Value \<Rightarrow> bool option" where
  "as_Boolean (Boolean b) = Some b"
| "as_Boolean _ = None"

fun as_Integer :: "Value \<Rightarrow> int64_t option" where
  "as_Integer (Integer i) = Some i"
| "as_Integer _ = None"

fun as_Double :: "Value \<Rightarrow> double option" where
  "as_Double (Double d) = Some d"
| "as_Double _ = None"

fun as_String :: "Value \<Rightarrow> string option" where
  "as_String (String s) = Some s"
| "as_String _ = None"

fun as_DoubleArray :: "Value \<Rightarrow> double list option" where
  "as_DoubleArray (DoubleArray ds) = Some ds"
| "as_DoubleArray _ = None"

fun as_IntegerArray :: "Value \<Rightarrow> int64_t list option" where
  "as_IntegerArray (IntegerArray is) = Some is"
| "as_IntegerArray _ = None"

text \<open>Modelled from the spec: a publisher forwards the scalar it is given to its topic
  (section 4.3).\<close>

record Publisher =
  pub_topic :: "string option"

definition Publish :: "string \<Rightarrow> Publisher" where
  "Publish path = \<lparr>pub_topic = Some path\<rparr>"

definition Set_value :: "Publisher \<Rightarrow> Value \<Rightarrow> NetworkTableInstance \<Rightarrow> NetworkTableInstance" where
  "Set_value p v nt =
     (case pub_topic p of None \<Rightarrow> nt | Some path \<Rightarrow> nt\<lparr>topics := (topics nt)(path \<mapsto> v)\<rparr>)"

subsection \<open>\<^verbatim>\<open>std::to_string(int)\<close>\<close>

fun digits :: "nat \<Rightarrow> string" where
  "digits n =
     (if n < 10 then [''0123456789'' ! n]
      else digits (n div 10) @ [''0123456789'' ! (n mod 10)])"

declare digits.simps [simp del]

definition to_string :: "c_int \<Rightarrow> string" where
  "to_string i =
     (if sint i < 0 then ''-'' @ digits (nat (- sint i)) else digits (nat (sint i)))"

subsection \<open>\<^verbatim>\<open>struct XNav::Impl\<close>\<close>

record TagSubs =
  tx :: "double Subscriber"
  ty :: "double Subscriber"
  x :: "double Subscriber"
  y :: "double Subscriber"
  z :: "double Subscriber"
  distance :: "double Subscriber"
  yaw :: "double Subscriber"
  pitch :: "double Subscriber"
  roll :: "double Subscriber"

text \<open>\<^verbatim>\<open>inst\<close> is a handle: invalid until \<^verbatim>\<open>Init\<close> assigns the default instance.\<close>

datatype instance_handle = No_instance | Default_instance

datatype fault = Null_table

text \<open>The callback is opaque to the library: \<open>'cb\<close> is the type of callables, and an empty
  \<^verbatim>\<open>std::function\<close> is \<open>None\<close>. \<open>data_mutex\<close> is the mutex's state, \<open>True\<close> when locked.\<close>

record 'cb Impl =
  table_name :: string
  on_new_targets :: "'cb option"
  data_mutex :: bool
  inst :: instance_handle
  table :: "string option"
  sub_has_target :: "bool Subscriber"
  sub_num_targets :: "int64_t Subscriber"
  sub_primary_id :: "int64_t Subscriber"
  sub_status :: "string Subscriber"
  sub_fps :: "double Subscriber"
  sub_latency :: "double Subscriber"
  sub_robot_pose :: "double list Subscriber"
  sub_offset_valid :: "bool Subscriber"
  sub_offset_x :: "double Subscriber"
  sub_offset_y :: "double Subscriber"
  sub_offset_z :: "double Subscriber"
  sub_offset_dist :: "double Subscriber"
  sub_offset_tx :: "double Subscriber"
  sub_offset_ty :: "double Subscriber"
  sub_offset_tagid :: "int64_t Subscriber"
  pub_turret_angle :: Publisher
  pub_turret_enabled :: Publisher
  pub_match_mode :: Publisher
  tag_subs :: "c_int \<rightharpoonup> TagSubs"
  sub_tag_ids :: "int64_t list Subscriber"

text \<open>\<^verbatim>\<open>XNav::XNav(table_name)\<close>: \<^verbatim>\<open>make_unique<Impl>()\<close> value-initialises every member,
  then the table name is stored.\<close>

definition XNav :: "string \<Rightarrow> 'cb Impl" where
  "XNav name =
     \<lparr>table_name = name, on_new_targets = None, data_mutex = False,
      inst = No_instance, table = None,
      sub_has_target = unbound False, sub_num_targets = unbound 0,
      sub_primary_id = unbound 0, sub_status = unbound [],
      sub_fps = unbound 0, sub_latency = unbound 0, sub_robot_pose = unbound [],
      sub_offset_valid = unbound False,
      sub_offset_x = unbound 0, sub_offset_y = unbound 0, sub_offset_z = unbound 0,
      sub_offset_dist = unbound 0, sub_offset_tx = unbound 0, sub_offset_ty = unbound 0,
      sub_offset_tagid = unbound 0,
      pub_turret_angle = \<lparr>pub_topic = None\<rparr>, pub_turret_enabled = \<lparr>pub_topic = None\<rparr>,
      pub_match_mode = \<lparr>pub_topic = None\<rparr>,
      tag_subs = Map.empty, sub_tag_ids = unbound []\<rparr>"

text \<open>\<^verbatim>\<open>Impl::Init(server)\<close>. The state is the \<open>Impl\<close> and the default transport instance.\<close>

definition Init :: "bool \<Rightarrow> string \<Rightarrow> 'cb Impl \<times> NetworkTableInstance \<Rightarrow> 'cb Impl \<times> NetworkTableInstance" where
  "Init wpilib server s =
     (if wpilib then
        (let impl = fst s; nt = snd s;
             t = GetTable (table_name impl);
             op = GetSubTable t ''offsetPoint'';
             input = GetSubTable t ''input''
         in (impl\<lparr>inst := Default_instance, table := Some t,
                   sub_has_target := Subscribe (GetTopic t ''hasTarget'') False,
                   sub_num_targets := Subscribe (GetTopic t ''numTargets'') 0,
                   sub_primary_id := Subscribe (GetTopic t ''primaryTagId'') (- 1),
                   sub_status := Subscribe (GetTopic t ''status'') ''unknown'',
                   sub_fps := Subscribe (GetTopic t ''fps'') 0,
                   sub_latency := Subscribe (GetTopic t ''latencyMs'') 0,
                   sub_robot_pose := Subscribe (GetTopic t ''robotPose'') [],
                   sub_tag_ids := Subscribe (GetTopic t ''tagIds'') [],
                   sub_offset_valid := Subscribe (GetTopic op ''valid'') False,
                   sub_offset_x := Subscribe (GetTopic op ''x'') 0,
                   sub_offset_y := Subscribe (GetTopic op ''y'') 0,
                   sub_offset_z := Subscribe (GetTopic op ''z'') 0,
                   sub_offset_dist := Subscribe (GetTopic op ''directDistance'') 0,
                   sub_offset_tx := Subscribe (GetTopic op ''tx'') 0,
                   sub_offset_ty := Subscribe (GetTopic op ''ty'') 0,
                   sub_offset_tagid := Subscribe (GetTopic op ''tag_id'') (- 1),
                   pub_turret_angle := Publish (GetTopic input ''turretAngle''),
                   pub_turret_enabled := Publish (GetTopic input ''turretEnabled''),
                   pub_match_mode := Publish (GetTopic input ''matchMode'')\<rparr>,
             StartClient4 ''XNavLib'' (if server \<noteq> [] then SetServer server nt else nt)))
      else s)"

text \<open>The nine \<^verbatim>\<open>Subscribe(0.0)\<close> calls of \<^verbatim>\<open>Impl::GetTagSubs\<close> on the sub-table
  \<open>sub\<close>, which fill the new \<^verbatim>\<open>TagSubs ts\<close>.\<close>

definition Subscribe_TagSubs :: "string \<Rightarrow> TagSubs" where
  "Subscribe_TagSubs sub =
     \<lparr>TagSubs.tx = Subscribe (GetTopic sub ''tx'') 0,
      TagSubs.ty = Subscribe (GetTopic sub ''ty'') 0,
      TagSubs.x = Subscribe (GetTopic sub ''x'') 0,
      TagSubs.y = Subscribe (GetTopic sub ''y'') 0,
      TagSubs.z = Subscribe (GetTopic sub ''z'') 0,
      TagSubs.distance = Subscribe (GetTopic sub ''distance'') 0,
      TagSubs.yaw = Subscribe (GetTopic sub ''yaw'') 0,
      TagSubs.pitch = Subscribe (GetTopic sub ''pitch'') 0,
      TagSubs.roll = Subscribe (GetTopic sub ''roll'') 0\<rparr>"

text \<open>\<^verbatim>\<open>Impl::GetTagSubs(id)\<close>: the cached subscriber set of the id, or a new one, inserted.\<close>

definition GetTagSubs :: "c_int \<Rightarrow> 'cb Impl \<Rightarrow> fault + (TagSubs \<times> 'cb Impl)" where
  "GetTagSubs i impl =
     (case tag_subs impl i of
        Some ts \<Rightarrow> Inr (ts, impl)
      | None \<Rightarrow>
          (case table impl of
             None \<Rightarrow> Inl Null_table
           | Some t \<Rightarrow>
               (let sub = GetSubTable t (''targets/'' @ to_string i);
                    ts = Subscribe_TagSubs sub
                in Inr (ts, impl\<lparr>tag_subs := (tag_subs impl)(i \<mapsto> ts)\<rparr>))))"

text \<open>The nine reads of \<^verbatim>\<open>Impl::ReadTag\<close>, given the subscriber set.\<close>

definition read_subs :: "c_int \<Rightarrow> TagSubs \<Rightarrow> NetworkTableInstance \<Rightarrow> TagResult" where
  "read_subs i ts nt =
     TagResult_default
       \<lparr>TagResult.id := i,
        TagResult.tx := Get as_Double (TagSubs.tx ts) nt,
        TagResult.ty := Get as_Double (TagSubs.ty ts) nt,
        TagResult.x := Get as_Double (TagSubs.x ts) nt,
        TagResult.y := Get as_Double (TagSubs.y ts) nt,
        TagResult.z := Get as_Double (TagSubs.z ts) nt,
        TagResult.distance := Get as_Double (TagSubs.distance ts) nt,
        TagResult.yaw := Get as_Double (TagSubs.yaw ts) nt,
        TagResult.pitch := Get as_Double (TagSubs.pitch ts) nt,
        TagResult.roll := Get as_Double (TagSubs.roll ts) nt\<rparr>"

text \<open>\<^verbatim>\<open>Impl::ReadTag(id)\<close>; without WPILib, the stub that only sets the id.\<close>

definition ReadTag :: "bool \<Rightarrow> c_int \<Rightarrow> 'cb Impl \<Rightarrow> NetworkTableInstance \<Rightarrow> fault + (TagResult \<times> 'cb Impl)" where
  "ReadTag wpilib i impl nt =
     (if wpilib then
        (case GetTagSubs i impl of
           Inl e \<Rightarrow> Inl e
         | Inr (ts, impl') \<Rightarrow> Inr (read_subs i ts nt, impl'))
      else Inr (TagResult_default\<lparr>TagResult.id := i\<rparr>, impl))"

subsection \<open>The public API of \<^verbatim>\<open>class XNav\<close>\<close>

definition XNav_Init_default :: "bool \<Rightarrow> 'cb Impl \<times> NetworkTableInstance \<Rightarrow> 'cb Impl \<times> NetworkTableInstance" where
  "XNav_Init_default wpilib s = Init wpilib [] s"

definition XNav_Init :: "bool \<Rightarrow> string \<Rightarrow> 'cb Impl \<times> NetworkTableInstance \<Rightarrow> 'cb Impl \<times> NetworkTableInstance" where
  "XNav_Init wpilib server_address s = Init wpilib server_address s"

definition HasTarget :: "bool \<Rightarrow> 'cb Impl \<Rightarrow> NetworkTableInstance \<Rightarrow> bool" where
  "HasTarget wpilib impl nt = (if wpilib then Get as_Boolean (sub_has_target impl) nt else False)"

definition GetNumTargets :: "bool \<Rightarrow> 'cb Impl \<Rightarrow> NetworkTableInstance \<Rightarrow> c_int" where
  "GetNumTargets wpilib impl nt =
     (if wpilib then ucast (Get as_Integer (sub_num_targets impl) nt) else 0)"

definition GetTagIds :: "bool \<Rightarrow> 'cb Impl \<Rightarrow> NetworkTableInstance \<Rightarrow> c_int list" where
  "GetTagIds wpilib impl nt =
     (if wpilib then map ucast (Get as_IntegerArray (sub_tag_ids impl) nt) else [])"

definition GetPrimaryTarget :: "bool \<Rightarrow> 'cb Impl \<Rightarrow> NetworkTableInstance \<Rightarrow> fault + (TagResult \<times> 'cb Impl)" where
  "GetPrimaryTarget wpilib impl nt =
     (if wpilib then
        (let i = (ucast (Get_or as_Integer (sub_primary_id impl) (- 1) nt) :: c_int)
         in if sint i < 0 then Inr (TagResult_default, impl) else ReadTag wpilib i impl nt)
      else Inr (TagResult_default, impl))"

definition GetTarget :: "bool \<Rightarrow> c_int \<Rightarrow> 'cb Impl \<Rightarrow> NetworkTableInstance \<Rightarrow> fault + (TagResult option \<times> 'cb Impl)" where
  "GetTarget wpilib tid impl nt =
     (if wpilib then
        (let ids = GetTagIds wpilib impl nt
         in if tid \<notin> set ids then Inr (None, impl)
            else (case ReadTag wpilib tid impl nt of
                    Inl e \<Rightarrow> Inl e
                  | Inr (t, impl') \<Rightarrow> Inr (Some t, impl')))
      else Inr (None, impl))"

text \<open>The loop of \<^verbatim>\<open>GetAllTargets\<close>: \<open>results\<close> is the vector built so far.\<close>

fun GetAllTargets_loop :: "bool \<Rightarrow> c_int list \<Rightarrow> TagResult list \<Rightarrow> 'cb Impl \<Rightarrow> NetworkTableInstance \<Rightarrow> fault + (TagResult list \<times> 'cb Impl)" where
  "GetAllTargets_loop wpilib [] results impl nt = Inr (results, impl)"
| "GetAllTargets_loop wpilib (i # ids) results impl nt =
     (case ReadTag wpilib i impl nt of
        Inl e \<Rightarrow> Inl e
      | Inr (t, impl') \<Rightarrow> GetAllTargets_loop wpilib ids (results @ [t]) impl' nt)"

definition GetAllTargets :: "bool \<Rightarrow> 'cb Impl \<Rightarrow> NetworkTableInstance \<Rightarrow> fault + (TagResult list \<times> 'cb Impl)" where
  "GetAllTargets wpilib impl nt = GetAllTargets_loop wpilib (GetTagIds wpilib impl nt) [] impl nt"

definition GetRobotPose :: "bool \<Rightarrow> 'cb Impl \<Rightarrow> NetworkTableInstance \<Rightarrow> RobotPose" where
  "GetRobotPose wpilib impl nt =
     (if wpilib then
        (let data = Get_or as_DoubleArray (sub_robot_pose impl) [] nt
         in if length data \<ge> 6 then
              RobotPose_default
                \<lparr>RobotPose.x := data ! 0, RobotPose.y := data ! 1, RobotPose.z := data ! 2,
                 RobotPose.roll := data ! 3, RobotPose.pitch := data ! 4,
                 RobotPose.yaw_deg := data ! 5, RobotPose.valid := True\<rparr>
            else RobotPose_default)
      else RobotPose_default)"

definition GetOffsetPoint :: "bool \<Rightarrow> 'cb Impl \<Rightarrow> NetworkTableInstance \<Rightarrow> OffsetPoint" where
  "GetOffsetPoint wpilib impl nt =
     (if wpilib then
        OffsetPoint_default
          \<lparr>OffsetPoint.valid := Get_or as_Boolean (sub_offset_valid impl) False nt,
           OffsetPoint.tag_id := ucast (Get_or as_Integer (sub_offset_tagid impl) (- 1) nt),
           OffsetPoint.x := Get_or as_Double (sub_offset_x impl) 0 nt,
           OffsetPoint.y := Get_or as_Double (sub_offset_y impl) 0 nt,
           OffsetPoint.z := Get_or as_Double (sub_offset_z impl) 0 nt,
           OffsetPoint.direct_distance := Get_or as_Double (sub_offset_dist impl) 0 nt,
           OffsetPoint.tx := Get_or as_Double (sub_offset_tx impl) 0 nt,
           OffsetPoint.ty := Get_or as_Double (sub_offset_ty impl) 0 nt\<rparr>
      else OffsetPoint_default)"

definition SetTurretAngle :: "bool \<Rightarrow> double \<Rightarrow> 'cb Impl \<Rightarrow> NetworkTableInstance \<Rightarrow> NetworkTableInstance" where
  "SetTurretAngle wpilib angle_deg impl nt =
     (if wpilib then Set_value (pub_turret_angle impl) (Double angle_deg) nt else nt)"

definition SetTurretEnabled :: "bool \<Rightarrow> bool \<Rightarrow> 'cb Impl \<Rightarrow> NetworkTableInstance \<Rightarrow> NetworkTableInstance" where
  "SetTurretEnabled wpilib enabled impl nt =
     (if wpilib then Set_value (pub_turret_enabled impl) (Boolean enabled) nt else nt)"

definition SetMatchMode :: "bool \<Rightarrow> bool \<Rightarrow> 'cb Impl \<Rightarrow> NetworkTableInstance \<Rightarrow> NetworkTableInstance" where
  "SetMatchMode wpilib enabled impl nt =
     (if wpilib then Set_value (pub_match_mode impl) (Boolean enabled) nt else nt)"

definition IsConnected :: "bool \<Rightarrow> 'cb Impl \<Rightarrow> NetworkTableInstance \<Rightarrow> bool" where
  "IsConnected wpilib impl nt =
     (if wpilib then
        (case inst impl of No_instance \<Rightarrow> False | Default_instance \<Rightarrow> GetConnections nt \<noteq> [])
      else False)"

definition GetStatus :: "bool \<Rightarrow> 'cb Impl \<Rightarrow> NetworkTableInstance \<Rightarrow> SystemStatus" where
  "GetStatus wpilib impl nt =
     (if wpilib then
        SystemStatus_default
          \<lparr>status := Get_or as_String (sub_status impl) ''unknown'' nt,
           fps := Get_or as_Double (sub_fps impl) 0 nt,
           latency_ms := Get_or as_Double (sub_latency impl) 0 nt,
           num_targets := GetNumTargets wpilib impl nt,
           nt_connected := IsConnected wpilib impl nt\<rparr>
      else SystemStatus_default)"

definition OnNewTargets :: "'cb option \<Rightarrow> 'cb Impl \<Rightarrow> 'cb Impl" where
  "OnNewTargets callback impl = impl\<lparr>on_new_targets := callback\<rparr>"

subsection \<open>\<^verbatim>\<open>Impl::GetTagSubs\<close>, statement by statement\<close>

text \<open>
  Several application threads may call the facade at once, and \<^verbatim>\<open>GetTagSubs\<close> is the one
  place where a query writes to shared state. Here its body is cut into the steps one thread
  takes, each taken as atomic: the search (\<^verbatim>\<open>tag_subs.find(id)\<close>, with the early return
  when the id is cached and the construction of the new \<^verbatim>\<open>TagSubs\<close> otherwise), then the
  insertion \<^verbatim>\<open>tag_subs[id] = std::move(ts)\<close> and the return. No statement of the body
  locks or unlocks \<^verbatim>\<open>data_mutex\<close>, so no step waits for it or changes it.
\<close>

datatype GetTagSubs_pc =
    At_find
  | At_insert TagSubs
  | Returned TagSubs
  | Faulted fault

definition GetTagSubs_step :: "c_int \<Rightarrow> GetTagSubs_pc \<Rightarrow> 'cb Impl \<Rightarrow> GetTagSubs_pc \<times> 'cb Impl" where
  "GetTagSubs_step i pc impl =
     (case pc of
        At_find \<Rightarrow>
          (case tag_subs impl i of
             Some ts \<Rightarrow> (Returned ts, impl)
           | None \<Rightarrow>
               (case table impl of
                  None \<Rightarrow> (Faulted Null_table, impl)
                | Some t \<Rightarrow>
                    (At_insert (Subscribe_TagSubs (GetSubTable t (''targets/'' @ to_string i))), impl)))
      | At_insert ts \<Rightarrow> (Returned ts, impl\<lparr>tag_subs := (tag_subs impl)(i \<mapsto> ts)\<rparr>)
      | Returned ts \<Rightarrow> (Returned ts, impl)
      | Faulted e \<Rightarrow> (Faulted e, impl))"

text \<open>What a thread that has finished hands back to \<^verbatim>\<open>ReadTag\<close>.\<close>

definition outcome :: "GetTagSubs_pc \<times> 'cb Impl \<Rightarrow> (fault + (TagSubs \<times> 'cb Impl)) option" where
  "outcome s =
     (case fst s of
        Returned ts \<Rightarrow> Some (Inr (ts, snd s))
      | Faulted e \<Rightarrow> Some (Inl e)
      | _ \<Rightarrow> None)"

text \<open>Two threads, the first in \<^verbatim>\<open>GetTagSubs(i)\<close> and the second in \<^verbatim>\<open>GetTagSubs(j)\<close>, on
  the same \<open>Impl\<close>. The schedule says which thread takes each step: \<open>True\<close> the first.\<close>

fun interleave :: "c_int \<Rightarrow> c_int \<Rightarrow> bool list \<Rightarrow> GetTagSubs_pc \<times> GetTagSubs_pc \<times> 'cb Impl \<Rightarrow> GetTagSubs_pc \<times> GetTagSubs_pc \<times> 'cb Impl" where
  "interleave i j [] s = s"
| "interleave i j (first # schedule) (pc1, pc2, impl) =
     (if first then
        interleave i j schedule
          (fst (GetTagSubs_step i pc1 impl), pc2, snd (GetTagSubs_step i pc1 impl))
      else
        interleave i j schedule
          (pc1, fst (GetTagSubs_step j pc2 impl), snd (GetTagSubs_step j pc2 impl)))"

subsection \<open>Auxiliary definitions\<close>

text \<open>The value a call returns, without the \<open>Impl\<close> it leaves behind.\<close>

definition returned :: "fault + ('a \<times> 'cb Impl) \<Rightarrow> fault + 'a" where
  "returned r = (case r of Inl e \<Rightarrow> Inl e | Inr (a, impl) \<Rightarrow> Inr a)"

text \<open>The values of the \<^verbatim>\<open>status\<close> topic that the header documents for
  \<^verbatim>\<open>SystemStatus::status\<close>, and the default that \<^verbatim>\<open>Init\<close> and \<^verbatim>\<open>GetStatus\<close> give it.\<close>

definition status_vocabulary :: "string set" where
  "status_vocabulary = {''running'', ''starting'', ''error'', ''unknown''}"

text \<open>Concrete states: a transport on which exactly the listed values have been published,
  and the facade \<^verbatim>\<open>xnav::XNav vision; vision.Init();\<close> of the header's usage note
  (no callback is ever stored in it, so the type of callables is \<open>unit\<close>).\<close>

definition published :: "(string \<times> Value) list \<Rightarrow> NetworkTableInstance" where
  "published kvs =
     \<lparr>topics = map_of kvs, server_addr = None, client_identity = None, connections = []\<rparr>"

definition initialised :: "unit Impl" where
  "initialised = fst (XNav_Init_default True (XNav ''XNav'', published []))"

section \<open>Properties\<close>

subsection \<open>Evaluation on concrete states\<close>

lemmas transport_defs =
  GetTable_def GetSubTable_def GetTopic_def Subscribe_def unbound_def Publish_def
  Get_or_def Get_def SetServer_def StartClient4_def GetConnections_def

lemmas facade_defs =
  XNav_def Init_def XNav_Init_default_def Subscribe_TagSubs_def GetTagSubs_def read_subs_def
  ReadTag_def HasTarget_def GetNumTargets_def GetTagIds_def GetPrimaryTarget_def GetTarget_def
  GetAllTargets_def GetRobotPose_def GetStatus_def IsConnected_def
  TagResult_default_def RobotPose_default_def SystemStatus_default_def
  to_string_def digits.simps Let_def

lemmas concrete_defs =
  published_def initialised_def returned_def status_vocabulary_def

subsection \<open>The per-tag subscriber cache\<close>

lemma GetTagSubs_cached:
  "tag_subs impl i = Some ts \<Longrightarrow> GetTagSubs i impl = Inr (ts, impl)"
  by (simp add: GetTagSubs_def)

lemma GetTagSubs_Inr:
  assumes "GetTagSubs i impl = Inr (ts, impl')"
  shows "impl' = impl\<lparr>tag_subs := (tag_subs impl)(i \<mapsto> ts)\<rparr>"
  using assms
  by (auto simp: GetTagSubs_def Let_def map_upd_triv split: option.splits)

lemma GetTagSubs_source:
  assumes "GetTagSubs i impl = Inr (ts, impl')"
  shows "tag_subs impl i = None \<or> tag_subs impl i = Some ts"
  using assms by (auto simp: GetTagSubs_def split: option.splits)

lemma GetTagSubs_total:
  "table impl = Some t \<Longrightarrow> \<exists>ts impl'. GetTagSubs i impl = Inr (ts, impl')"
  by (simp add: GetTagSubs_def Let_def split: option.splits)

lemma GetTagSubs_step_other:
  assumes "GetTagSubs i impl = Inr (ts, impl')" and "GetTagSubs j impl = Inr (ts2, s2)"
  shows "\<exists>s3. GetTagSubs j impl' = Inr (ts2, s3)"
proof (cases "j = i")
  case True
  with assms have "ts2 = ts" by simp
  moreover have "tag_subs impl' i = Some ts"
    using GetTagSubs_Inr [OF assms(1)] by simp
  ultimately show ?thesis
    using True by (simp add: GetTagSubs_cached)
next
  case False
  have eq: "tag_subs impl' j = tag_subs impl j" "table impl' = table impl"
    using GetTagSubs_Inr [OF assms(1)] False by simp_all
  show ?thesis
    using assms(2) unfolding GetTagSubs_def eq
    by (auto simp: Let_def split: option.splits)
qed

lemma ReadTag_Inr:
  assumes "ReadTag w i impl nt = Inr (r, impl')" and "w"
  shows "\<exists>ts. GetTagSubs i impl = Inr (ts, impl') \<and> r = read_subs i ts nt"
  using assms by (auto simp: ReadTag_def split: sum.splits)

lemma ReadTag_again:
  assumes "ReadTag w i impl nt = Inr (r, impl')" and "ReadTag w j impl nt = Inr (r2, s2)"
  shows "\<exists>s3. ReadTag w j impl' nt = Inr (r2, s3)"
proof (cases w)
  case True
  from ReadTag_Inr [OF assms(1) True] obtain ts where a: "GetTagSubs i impl = Inr (ts, impl')"
    by blast
  from ReadTag_Inr [OF assms(2) True] obtain ts2
    where b: "GetTagSubs j impl = Inr (ts2, s2)" "r2 = read_subs j ts2 nt"
    by blast
  from GetTagSubs_step_other [OF a b(1)] obtain s3 where "GetTagSubs j impl' = Inr (ts2, s3)" ..
  then show ?thesis using True b(2) by (simp add: ReadTag_def)
next
  case False
  with assms show ?thesis by (simp add: ReadTag_def)
qed

lemma ReadTag_total:
  "table impl = Some t \<Longrightarrow> \<exists>r impl'. ReadTag w i impl nt = Inr (r, impl')"
  using GetTagSubs_total [of impl t i]
  by (cases w) (auto simp: ReadTag_def)

lemma ReadTag_id:
  "ReadTag w i impl nt = Inr (r, impl') \<Longrightarrow> TagResult.id r = i"
  by (cases w) (auto simp: ReadTag_def read_subs_def split: sum.splits)

text \<open>The loop of \<^verbatim>\<open>GetAllTargets\<close>, started in a state \<open>impl\<close> that earlier iterations
  have reached from \<open>impl0\<close>: every read gives what it would have given in \<open>impl0\<close>.\<close>

lemma GetAllTargets_loop_results:
  assumes "\<forall>i\<in>set ids. \<exists>r s. ReadTag w i impl0 nt = Inr (r, s)"
    and "\<forall>j r s. ReadTag w j impl0 nt = Inr (r, s) \<longrightarrow> (\<exists>s'. ReadTag w j impl nt = Inr (r, s'))"
  shows "\<exists>rs impl'. GetAllTargets_loop w ids results impl nt = Inr (results @ rs, impl')
           \<and> length rs = length ids
           \<and> (\<forall>k<length ids. \<exists>s. ReadTag w (ids ! k) impl0 nt = Inr (rs ! k, s))"
  using assms
proof (induction ids arbitrary: impl results)
  case Nil
  then show ?case by simp
next
  case (Cons i ids)
  from Cons.prems(1) obtain r s where r0: "ReadTag w i impl0 nt = Inr (r, s)" by auto
  with Cons.prems(2) obtain impl1 where r1: "ReadTag w i impl nt = Inr (r, impl1)" by blast
  have keep: "\<forall>j r s. ReadTag w j impl0 nt = Inr (r, s) \<longrightarrow> (\<exists>s'. ReadTag w j impl1 nt = Inr (r, s'))"
  proof (intro allI impI)
    fix j r2 s2 assume "ReadTag w j impl0 nt = Inr (r2, s2)"
    with Cons.prems(2) obtain s3 where "ReadTag w j impl nt = Inr (r2, s3)" by blast
    from ReadTag_again [OF r1 this] show "\<exists>s'. ReadTag w j impl1 nt = Inr (r2, s')" .
  qed
  from Cons.prems(1) have rest: "\<forall>i\<in>set ids. \<exists>r s. ReadTag w i impl0 nt = Inr (r, s)" by simp
  from Cons.IH [OF rest keep, of "results @ [r]"]
  obtain rs impl' where
    loop: "GetAllTargets_loop w ids (results @ [r]) impl1 nt = Inr ((results @ [r]) @ rs, impl')"
    and len: "length rs = length ids"
    and nth: "\<forall>k<length ids. \<exists>s. ReadTag w (ids ! k) impl0 nt = Inr (rs ! k, s)"
    by blast
  have "GetAllTargets_loop w (i # ids) results impl nt = Inr (results @ (r # rs), impl')"
    using r1 loop by simp
  moreover have "length (r # rs) = length (i # ids)" using len by simp
  moreover have "\<forall>k<length (i # ids). \<exists>s. ReadTag w ((i # ids) ! k) impl0 nt = Inr ((r # rs) ! k, s)"
  proof (intro allI impI)
    fix k assume "k < length (i # ids)"
    then show "\<exists>s. ReadTag w ((i # ids) ! k) impl0 nt = Inr ((r # rs) ! k, s)"
      using r0 nth by (cases k) auto
  qed
  ultimately show ?case by blast
qed

lemma GetAllTargets_elementwise:
  assumes "table impl = Some t"
  shows "\<exists>rs impl'. GetAllTargets w impl nt = Inr (rs, impl')
           \<and> length rs = length (GetTagIds w impl nt)
           \<and> (\<forall>k<length (GetTagIds w impl nt).
                 \<exists>s. ReadTag w (GetTagIds w impl nt ! k) impl nt = Inr (rs ! k, s))"
proof -
  have "\<forall>i\<in>set (GetTagIds w impl nt). \<exists>r s. ReadTag w i impl nt = Inr (r, s)"
    using ReadTag_total [OF assms] by blast
  from GetAllTargets_loop_results [OF this, of impl "[]"]
  show ?thesis by (simp add: GetAllTargets_def)
qed

subsection \<open>Subscribers bound by \<^verbatim>\<open>Init\<close>\<close>





subsection \<open>The callback slot\<close>

lemma GetTagSubs_callback:
  "GetTagSubs i (impl\<lparr>on_new_targets := cb\<rparr>) =
     (case GetTagSubs i impl of
        Inl e \<Rightarrow> Inl e
      | Inr (ts, impl') \<Rightarrow> Inr (ts, impl'\<lparr>on_new_targets := cb\<rparr>))"
  by (simp add: GetTagSubs_def Let_def split: option.splits)

lemma ReadTag_callback:
  "ReadTag w i (impl\<lparr>on_new_targets := cb\<rparr>) nt =
     (case ReadTag w i impl nt of
        Inl e \<Rightarrow> Inl e
      | Inr (r, impl') \<Rightarrow> Inr (r, impl'\<lparr>on_new_targets := cb\<rparr>))"
  by (simp add: ReadTag_def GetTagSubs_callback split: sum.splits)

lemma GetAllTargets_loop_callback:
  "GetAllTargets_loop w ids results (impl\<lparr>on_new_targets := cb\<rparr>) nt =
     (case GetAllTargets_loop w ids results impl nt of
        Inl e \<Rightarrow> Inl e
      | Inr (rs, impl') \<Rightarrow> Inr (rs, impl'\<lparr>on_new_targets := cb\<rparr>))"
  by (induction ids arbitrary: impl results) (auto simp: ReadTag_callback split: sum.splits)

subsection \<open>One thread alone\<close>

lemma GetTagSubs_two_steps:
  "outcome (GetTagSubs_step i (fst (GetTagSubs_step i At_find impl)) (snd (GetTagSubs_step i At_find impl))) =
     Some (GetTagSubs i impl)"
  by (simp add: GetTagSubs_step_def GetTagSubs_def outcome_def Let_def split: option.splits)

lemma GetTagSubs_step_data_mutex:
  "data_mutex (snd (GetTagSubs_step i pc impl)) = data_mutex impl"
  by (simp add: GetTagSubs_step_def split: GetTagSubs_pc.splits option.splits)

subsection \<open>Narrowing to \<^verbatim>\<open>int\<close>\<close>

text \<open>\<^verbatim>\<open>static_cast<int>\<close> of a 64-bit value that fits an \<^verbatim>\<open>int\<close> keeps the value; of any other,
  it keeps the low 32 bits only.\<close>

lemma narrow_scast: "(ucast (v :: int64_t) :: c_int) = scast v"
proof -
  have "is_down (ucast :: int64_t \<Rightarrow> c_int)"
    by (simp add: is_down)
  from down_cast_same [OF this] show ?thesis by simp
qed

lemma narrow_in_range:
  fixes v :: int64_t
  assumes "- (2 ^ 31) \<le> sint v" and "sint v < 2 ^ 31"
  shows "sint (ucast v :: c_int) = sint v"
proof -
  have "sint (ucast v :: c_int) = signed_take_bit 31 (sint v)"
    unfolding narrow_scast by (simp add: signed_scast_eq)
  also have "\<dots> = sint v"
    using assms by (rule signed_take_bit_int_eq_self)
  finally show ?thesis .
qed

lemma sint_widen: "sint (scast (i :: c_int) :: int64_t) = sint i"
  by (rule sint_up_scast) (simp add: is_up)

lemma widen_narrow: "(ucast (scast (i :: c_int) :: int64_t) :: c_int) = i"
proof -
  have "- (2 ^ 31) \<le> sint i" "sint i < 2 ^ 31"
    using sint_ge [of i] sint_lt [of i] by simp_all
  then have "sint (ucast (scast i :: int64_t) :: c_int) = sint i"
    using narrow_in_range [of "scast i"] by (simp add: sint_widen)
  then show ?thesis by (rule signed_word_eqI)
qed

lemma narrow_widen:
  fixes v :: int64_t
  assumes "- (2 ^ 31) \<le> sint v" and "sint v < 2 ^ 31"
  shows "(scast (ucast v :: c_int) :: int64_t) = v"
proof -
  have "sint (scast (ucast v :: c_int) :: int64_t) = sint v"
    using narrow_in_range [OF assms] by (simp add: sint_widen)
  then show ?thesis by (rule signed_word_eqI)
qed

lemma narrowed_membership:
  assumes "\<forall>v\<in>set raw. - (2 ^ 31) \<le> sint v \<and> sint v < 2 ^ 31"
  shows "i \<in> set (map ucast raw) \<longleftrightarrow> (scast (i :: c_int) :: int64_t) \<in> set raw"
proof
  assume "i \<in> set (map ucast raw)"
  then obtain v where v: "v \<in> set raw" "i = ucast v" by auto
  with assms have "(scast (ucast v :: c_int) :: int64_t) = v"
    by (intro narrow_widen) auto
  with v show "(scast i :: int64_t) \<in> set raw" by simp
next
  assume wide: "(scast i :: int64_t) \<in> set raw"
  have "i = ucast (scast i :: int64_t)"
    by (simp add: widen_narrow)
  from this wide have "i \<in> ucast ` set raw"
    by (rule image_eqI)
  then show "i \<in> set (map ucast raw)"
    by simp
qed

subsection \<open>What \<^verbatim>\<open>ReadTag\<close> reads\<close>

lemma Get_Double:
  "Get as_Double \<lparr>sub_topic = Some p, sub_default = d\<rparr> nt =
     (case topics nt p of Some (Double v) \<Rightarrow> v | _ \<Rightarrow> d)"
  by (simp add: Get_def Get_or_def split: option.splits Value.splits)

lemma Subscribe_TagSubs_record:
  "Subscribe_TagSubs sub =
     \<lparr>TagSubs.tx = \<lparr>sub_topic = Some (sub @ ''/tx''), sub_default = 0\<rparr>,
      TagSubs.ty = \<lparr>sub_topic = Some (sub @ ''/ty''), sub_default = 0\<rparr>,
      TagSubs.x = \<lparr>sub_topic = Some (sub @ ''/x''), sub_default = 0\<rparr>,
      TagSubs.y = \<lparr>sub_topic = Some (sub @ ''/y''), sub_default = 0\<rparr>,
      TagSubs.z = \<lparr>sub_topic = Some (sub @ ''/z''), sub_default = 0\<rparr>,
      TagSubs.distance = \<lparr>sub_topic = Some (sub @ ''/distance''), sub_default = 0\<rparr>,
      TagSubs.yaw = \<lparr>sub_topic = Some (sub @ ''/yaw''), sub_default = 0\<rparr>,
      TagSubs.pitch = \<lparr>sub_topic = Some (sub @ ''/pitch''), sub_default = 0\<rparr>,
      TagSubs.roll = \<lparr>sub_topic = Some (sub @ ''/roll''), sub_default = 0\<rparr>\<rparr>"
  by (simp add: Subscribe_TagSubs_def Subscribe_def GetTopic_def)

lemma read_subs_record:
  "read_subs i ts nt =
     \<lparr>TagResult.id = i,
      TagResult.tx = Get as_Double (TagSubs.tx ts) nt,
      TagResult.ty = Get as_Double (TagSubs.ty ts) nt,
      TagResult.x = Get as_Double (TagSubs.x ts) nt,
      TagResult.y = Get as_Double (TagSubs.y ts) nt,
      TagResult.z = Get as_Double (TagSubs.z ts) nt,
      TagResult.distance = Get as_Double (TagSubs.distance ts) nt,
      TagResult.yaw = Get as_Double (TagSubs.yaw ts) nt,
      TagResult.pitch = Get as_Double (TagSubs.pitch ts) nt,
      TagResult.roll = Get as_Double (TagSubs.roll ts) nt\<rparr>"
  by (simp add: read_subs_def TagResult_default_def)

text \<open>With the table bound, \<^verbatim>\<open>ReadTag(id)\<close> returns the record read through the cached
  subscriber set of the id or, when there is none, through a new set on the topics of
  \<^verbatim>\<open>targets/<id>\<close>, and leaves that set in the cache.\<close>

lemma ReadTag_record:
  assumes "table impl = Some t"
  shows "\<exists>impl' ts. ReadTag True i impl nt = Inr (read_subs i ts nt, impl')
           \<and> tag_subs impl' i = Some ts
           \<and> (tag_subs impl i = Some ts
              \<or> tag_subs impl i = None \<and> ts = Subscribe_TagSubs (t @ ''/targets/'' @ to_string i))"
proof (cases "tag_subs impl i")
  case None
  then have "GetTagSubs i impl =
      Inr (Subscribe_TagSubs (t @ ''/targets/'' @ to_string i),
           impl\<lparr>tag_subs := (tag_subs impl)(i \<mapsto> Subscribe_TagSubs (t @ ''/targets/'' @ to_string i))\<rparr>)"
    using assms by (simp add: GetTagSubs_def Let_def GetSubTable_def)
  then show ?thesis using None by (simp add: ReadTag_def)
next
  case (Some ts)
  then show ?thesis by (simp add: ReadTag_def GetTagSubs_cached)
qed

subsection \<open>The scenarios of the specification\<close>

text \<open>One tag visible: the primary target is the record read from its nine topics.\<close>

lemma scenario_primary_target:
  "returned (GetPrimaryTarget True initialised
      (published [(''XNav/hasTarget'', Boolean True), (''XNav/numTargets'', Integer 1),
         (''XNav/tagIds'', IntegerArray [7]), (''XNav/primaryTagId'', Integer 7),
         (''XNav/targets/7/tx'', Double 3.2), (''XNav/targets/7/ty'', Double (- 1.1)),
         (''XNav/targets/7/x'', Double 0), (''XNav/targets/7/y'', Double 0),
         (''XNav/targets/7/z'', Double 2.5), (''XNav/targets/7/distance'', Double 2.5),
         (''XNav/targets/7/yaw'', Double 0.4), (''XNav/targets/7/pitch'', Double 0),
         (''XNav/targets/7/roll'', Double 0)])) =
     Inr \<lparr>TagResult.id = 7, TagResult.tx = 3.2, TagResult.ty = - 1.1, TagResult.x = 0,
          TagResult.y = 0, TagResult.z = 2.5, TagResult.distance = 2.5, TagResult.yaw = 0.4,
          TagResult.pitch = 0, TagResult.roll = 0\<rparr>"
  by (simp add: concrete_defs facade_defs transport_defs)

text \<open>Nothing published yet: every query returns the record of the declared defaults.\<close>

lemma narrow_minus_one: "(ucast (- 1 :: int64_t) :: c_int) = - 1"
  by code_simp

lemma scenario_no_traffic:
  "HasTarget True initialised (published []) = False"
  "GetNumTargets True initialised (published []) = 0"
  "GetTagIds True initialised (published []) = []"
  "returned (GetPrimaryTarget True initialised (published [])) = Inr TagResult_default"
  "returned (GetTarget True 7 initialised (published [])) = Inr None"
  "returned (GetAllTargets True initialised (published [])) = Inr []"
  "GetRobotPose True initialised (published []) = RobotPose_default"
  "GetOffsetPoint True initialised (published []) = OffsetPoint_default"
  "GetStatus True initialised (published []) = SystemStatus_default\<lparr>status := ''unknown''\<rparr>"
  "IsConnected True initialised (published []) = False"
  by (simp_all add: concrete_defs facade_defs transport_defs GetOffsetPoint_def
      OffsetPoint_default_def narrow_minus_one)

text \<open>A control input is published as it is given.\<close>

lemma scenario_turret_angle:
  "topics (SetTurretAngle True 45 initialised (published [])) ''XNav/input/turretAngle'' =
     Some (Double 45)"
  by (simp add: SetTurretAngle_def Set_value_def concrete_defs facade_defs transport_defs)

section \<open>The claims\<close>

text \<open>
  Claim C1, as amended. \<^verbatim>\<open>GetTarget(id)\<close> returns the empty optional if and only if the id
  is not an element of the list \<^verbatim>\<open>GetTagIds()\<close> returns, which is the published \<^verbatim>\<open>tagIds\<close>
  list with every element narrowed to \<^verbatim>\<open>int\<close>: the membership test comes after
  \<^verbatim>\<open>static_cast<int>\<close>. For a published list whose elements all fit an \<^verbatim>\<open>int\<close>, that is
  membership of the id in the published list itself. When the id is in the narrowed list
  (and \<^verbatim>\<open>Init\<close> has bound the table), the result is the \<open>TagResult\<close> whose id field is the
  id and whose nine numeric fields are the values of the nine subscribers of the id: the
  cached set or, when none is cached, a new set on the topics \<^verbatim>\<open>targets/<id>/tx\<close> to
  \<^verbatim>\<open>targets/<id>/roll\<close> with default 0. When the id is not in the narrowed list, a
  subscriber set that an earlier frame left in \<^verbatim>\<open>tag_subs\<close> changes nothing: the result is
  still empty and the cache is not touched.
\<close>

theorem GetTarget_narrowed_membership:
  "((\<exists>impl'. GetTarget w i impl nt = Inr (None, impl')) \<longleftrightarrow> i \<notin> set (GetTagIds w impl nt))
   \<and> (sub_topic (sub_tag_ids impl) = Some p \<longrightarrow> topics nt p = Some (IntegerArray raw) \<longrightarrow>
        GetTagIds True impl nt = map ucast raw
        \<and> ((\<forall>v\<in>set raw. - (2 ^ 31) \<le> sint v \<and> sint v < 2 ^ 31) \<longrightarrow>
             (i \<in> set (GetTagIds True impl nt) \<longleftrightarrow> (scast i :: int64_t) \<in> set raw)))
   \<and> (i \<in> set (GetTagIds w impl nt) \<longrightarrow> table impl = Some t \<longrightarrow>
        (\<exists>impl' ts.
            GetTarget w i impl nt =
              Inr (Some \<lparr>TagResult.id = i,
                         TagResult.tx = Get as_Double (TagSubs.tx ts) nt,
                         TagResult.ty = Get as_Double (TagSubs.ty ts) nt,
                         TagResult.x = Get as_Double (TagSubs.x ts) nt,
                         TagResult.y = Get as_Double (TagSubs.y ts) nt,
                         TagResult.z = Get as_Double (TagSubs.z ts) nt,
                         TagResult.distance = Get as_Double (TagSubs.distance ts) nt,
                         TagResult.yaw = Get as_Double (TagSubs.yaw ts) nt,
                         TagResult.pitch = Get as_Double (TagSubs.pitch ts) nt,
                         TagResult.roll = Get as_Double (TagSubs.roll ts) nt\<rparr>, impl')
            \<and> tag_subs impl' i = Some ts
            \<and> (tag_subs impl i = Some ts
               \<or> tag_subs impl i = None
                 \<and> ts =
                   \<lparr>TagSubs.tx = \<lparr>sub_topic = Some (t @ ''/targets/'' @ to_string i @ ''/tx''), sub_default = 0\<rparr>,
                    TagSubs.ty = \<lparr>sub_topic = Some (t @ ''/targets/'' @ to_string i @ ''/ty''), sub_default = 0\<rparr>,
                    TagSubs.x = \<lparr>sub_topic = Some (t @ ''/targets/'' @ to_string i @ ''/x''), sub_default = 0\<rparr>,
                    TagSubs.y = \<lparr>sub_topic = Some (t @ ''/targets/'' @ to_string i @ ''/y''), sub_default = 0\<rparr>,
                    TagSubs.z = \<lparr>sub_topic = Some (t @ ''/targets/'' @ to_string i @ ''/z''), sub_default = 0\<rparr>,
                    TagSubs.distance = \<lparr>sub_topic = Some (t @ ''/targets/'' @ to_string i @ ''/distance''), sub_default = 0\<rparr>,
                    TagSubs.yaw = \<lparr>sub_topic = Some (t @ ''/targets/'' @ to_string i @ ''/yaw''), sub_default = 0\<rparr>,
                    TagSubs.pitch = \<lparr>sub_topic = Some (t @ ''/targets/'' @ to_string i @ ''/pitch''), sub_default = 0\<rparr>,
                    TagSubs.roll = \<lparr>sub_topic = Some (t @ ''/targets/'' @ to_string i @ ''/roll''), sub_default = 0\<rparr>\<rparr>)))
   \<and> (i \<notin> set (GetTagIds w impl nt) \<longrightarrow>
        GetTarget w i (impl\<lparr>tag_subs := (tag_subs impl)(i \<mapsto> stale)\<rparr>) nt =
          Inr (None, impl\<lparr>tag_subs := (tag_subs impl)(i \<mapsto> stale)\<rparr>))"
proof (intro conjI impI)
  show "(\<exists>impl'. GetTarget w i impl nt = Inr (None, impl')) \<longleftrightarrow> i \<notin> set (GetTagIds w impl nt)"
    by (auto simp: GetTarget_def GetTagIds_def Let_def split: sum.splits)
next
  assume "sub_topic (sub_tag_ids impl) = Some p" and "topics nt p = Some (IntegerArray raw)"
  then show ids: "GetTagIds True impl nt = map ucast raw"
    by (simp add: GetTagIds_def Get_def Get_or_def)
  assume "\<forall>v\<in>set raw. - (2 ^ 31) \<le> sint v \<and> sint v < 2 ^ 31"
  from narrowed_membership [OF this, of i]
  show "i \<in> set (GetTagIds True impl nt) \<longleftrightarrow> (scast i :: int64_t) \<in> set raw"
    unfolding ids .
next
  assume mem: "i \<in> set (GetTagIds w impl nt)" and tab: "table impl = Some t"
  then have w: "w" by (auto simp: GetTagIds_def split: if_splits)
  from ReadTag_record [OF tab, of i nt] obtain impl' ts
    where read: "ReadTag True i impl nt = Inr (read_subs i ts nt, impl')"
      and cache: "tag_subs impl' i = Some ts"
      and src: "tag_subs impl i = Some ts
              \<or> tag_subs impl i = None \<and> ts = Subscribe_TagSubs (t @ ''/targets/'' @ to_string i)"
    by blast
  have "GetTarget w i impl nt = Inr (Some (read_subs i ts nt), impl')"
    using mem w read by (simp add: GetTarget_def Let_def)
  with cache src show "\<exists>impl' ts.
            GetTarget w i impl nt =
              Inr (Some \<lparr>TagResult.id = i,
                         TagResult.tx = Get as_Double (TagSubs.tx ts) nt,
                         TagResult.ty = Get as_Double (TagSubs.ty ts) nt,
                         TagResult.x = Get as_Double (TagSubs.x ts) nt,
                         TagResult.y = Get as_Double (TagSubs.y ts) nt,
                         TagResult.z = Get as_Double (TagSubs.z ts) nt,
                         TagResult.distance = Get as_Double (TagSubs.distance ts) nt,
                         TagResult.yaw = Get as_Double (TagSubs.yaw ts) nt,
                         TagResult.pitch = Get as_Double (TagSubs.pitch ts) nt,
                         TagResult.roll = Get as_Double (TagSubs.roll ts) nt\<rparr>, impl')
            \<and> tag_subs impl' i = Some ts
            \<and> (tag_subs impl i = Some ts
               \<or> tag_subs impl i = None
                 \<and> ts =
                   \<lparr>TagSubs.tx = \<lparr>sub_topic = Some (t @ ''/targets/'' @ to_string i @ ''/tx''), sub_default = 0\<rparr>,
                    TagSubs.ty = \<lparr>sub_topic = Some (t @ ''/targets/'' @ to_string i @ ''/ty''), sub_default = 0\<rparr>,
                    TagSubs.x = \<lparr>sub_topic = Some (t @ ''/targets/'' @ to_string i @ ''/x''), sub_default = 0\<rparr>,
                    TagSubs.y = \<lparr>sub_topic = Some (t @ ''/targets/'' @ to_string i @ ''/y''), sub_default = 0\<rparr>,
                    TagSubs.z = \<lparr>sub_topic = Some (t @ ''/targets/'' @ to_string i @ ''/z''), sub_default = 0\<rparr>,
                    TagSubs.distance = \<lparr>sub_topic = Some (t @ ''/targets/'' @ to_string i @ ''/distance''), sub_default = 0\<rparr>,
                    TagSubs.yaw = \<lparr>sub_topic = Some (t @ ''/targets/'' @ to_string i @ ''/yaw''), sub_default = 0\<rparr>,
                    TagSubs.pitch = \<lparr>sub_topic = Some (t @ ''/targets/'' @ to_string i @ ''/pitch''), sub_default = 0\<rparr>,
                    TagSubs.roll = \<lparr>sub_topic = Some (t @ ''/targets/'' @ to_string i @ ''/roll''), sub_default = 0\<rparr>\<rparr>)"
    by (intro exI [of _ impl'] exI [of _ ts])
      (simp add: read_subs_record Subscribe_TagSubs_record)
next
  assume "i \<notin> set (GetTagIds w impl nt)"
  then show "GetTarget w i (impl\<lparr>tag_subs := (tag_subs impl)(i \<mapsto> stale)\<rparr>) nt =
          Inr (None, impl\<lparr>tag_subs := (tag_subs impl)(i \<mapsto> stale)\<rparr>)"
    by (simp add: GetTarget_def GetTagIds_def Let_def)
qed

text \<open>The first scenario of the specification, tag 7 in view with its nine values published:
  \<^verbatim>\<open>GetTarget(7)\<close> returns them. And the lookup miss \<^verbatim>\<open>GetTarget(3)\<close>, with a subscriber
  set for tag 3 still cached and one of its topics still holding a value.\<close>

theorem GetTarget_narrowed_membership_witness:
  "sub_topic (sub_tag_ids initialised) = Some ''XNav/tagIds''
   \<and> topics (published [(''XNav/tagIds'', IntegerArray [7]), (''XNav/targets/3/tx'', Double 9),
         (''XNav/targets/7/tx'', Double 3.2), (''XNav/targets/7/ty'', Double (- 1.1)),
         (''XNav/targets/7/x'', Double 0), (''XNav/targets/7/y'', Double 0),
         (''XNav/targets/7/z'', Double 2.5), (''XNav/targets/7/distance'', Double 2.5),
         (''XNav/targets/7/yaw'', Double 0.4), (''XNav/targets/7/pitch'', Double 0),
         (''XNav/targets/7/roll'', Double 0)]) ''XNav/tagIds'' = Some (IntegerArray [7])
   \<and> (scast (7 :: c_int) :: int64_t) \<in> set [7]
   \<and> table initialised = Some ''XNav''
   \<and> returned (GetTarget True 7 initialised
        (published [(''XNav/tagIds'', IntegerArray [7]), (''XNav/targets/3/tx'', Double 9),
         (''XNav/targets/7/tx'', Double 3.2), (''XNav/targets/7/ty'', Double (- 1.1)),
         (''XNav/targets/7/x'', Double 0), (''XNav/targets/7/y'', Double 0),
         (''XNav/targets/7/z'', Double 2.5), (''XNav/targets/7/distance'', Double 2.5),
         (''XNav/targets/7/yaw'', Double 0.4), (''XNav/targets/7/pitch'', Double 0),
         (''XNav/targets/7/roll'', Double 0)])) =
       Inr (Some \<lparr>TagResult.id = 7, TagResult.tx = 3.2, TagResult.ty = - 1.1, TagResult.x = 0,
                  TagResult.y = 0, TagResult.z = 2.5, TagResult.distance = 2.5,
                  TagResult.yaw = 0.4, TagResult.pitch = 0, TagResult.roll = 0\<rparr>)
   \<and> 3 \<notin> set (GetTagIds True initialised
        (published [(''XNav/tagIds'', IntegerArray [7]), (''XNav/targets/3/tx'', Double 9),
         (''XNav/targets/7/tx'', Double 3.2), (''XNav/targets/7/ty'', Double (- 1.1)),
         (''XNav/targets/7/x'', Double 0), (''XNav/targets/7/y'', Double 0),
         (''XNav/targets/7/z'', Double 2.5), (''XNav/targets/7/distance'', Double 2.5),
         (''XNav/targets/7/yaw'', Double 0.4), (''XNav/targets/7/pitch'', Double 0),
         (''XNav/targets/7/roll'', Double 0)]))
   \<and> GetTarget True 3
        (initialised\<lparr>tag_subs :=
           (tag_subs initialised)(3 \<mapsto> Subscribe_TagSubs ''XNav/targets/3'')\<rparr>)
        (published [(''XNav/tagIds'', IntegerArray [7]), (''XNav/targets/3/tx'', Double 9),
         (''XNav/targets/7/tx'', Double 3.2), (''XNav/targets/7/ty'', Double (- 1.1)),
         (''XNav/targets/7/x'', Double 0), (''XNav/targets/7/y'', Double 0),
         (''XNav/targets/7/z'', Double 2.5), (''XNav/targets/7/distance'', Double 2.5),
         (''XNav/targets/7/yaw'', Double 0.4), (''XNav/targets/7/pitch'', Double 0),
         (''XNav/targets/7/roll'', Double 0)]) =
       Inr (None, initialised\<lparr>tag_subs :=
           (tag_subs initialised)(3 \<mapsto> Subscribe_TagSubs ''XNav/targets/3'')\<rparr>)"
proof -
  let ?kvs = "[(''XNav/tagIds'', IntegerArray [7]), (''XNav/targets/3/tx'', Double 9),
         (''XNav/targets/7/tx'', Double 3.2), (''XNav/targets/7/ty'', Double (- 1.1)),
         (''XNav/targets/7/x'', Double 0), (''XNav/targets/7/y'', Double 0),
         (''XNav/targets/7/z'', Double 2.5), (''XNav/targets/7/distance'', Double 2.5),
         (''XNav/targets/7/yaw'', Double 0.4), (''XNav/targets/7/pitch'', Double 0),
         (''XNav/targets/7/roll'', Double 0)]"
  let ?nt = "published ?kvs"
  have bound: "sub_topic (sub_tag_ids initialised) = Some ''XNav/tagIds''"
    by (simp add: concrete_defs facade_defs transport_defs)
  have feed: "topics ?nt ''XNav/tagIds'' = Some (IntegerArray [7])"
    by (simp add: published_def)
  have fits: "\<forall>v\<in>set [7 :: int64_t]. - (2 ^ 31) \<le> sint v \<and> sint v < 2 ^ 31"
    by simp
  have tab: "table initialised = Some ''XNav''"
    and fresh: "tag_subs initialised 7 = None"
    by (simp_all add: concrete_defs facade_defs transport_defs)
  have seven: "to_string 7 = ''7''"
    by (simp add: to_string_def digits.simps)
  note hit = GetTarget_narrowed_membership [where w = True and i = 7 and impl = initialised
      and nt = ?nt and t = "''XNav''" and p = "''XNav/tagIds''" and raw = "[7]"]
  note miss = GetTarget_narrowed_membership [where w = True and i = 3 and impl = initialised
      and nt = ?nt and stale = "Subscribe_TagSubs ''XNav/targets/3''"]
  from hit bound feed have ids: "GetTagIds True initialised ?nt = map ucast [7 :: int64_t]"
    by blast
  from hit bound feed fits
  have wide: "7 \<in> set (GetTagIds True initialised ?nt) \<longleftrightarrow> (scast (7 :: c_int) :: int64_t) \<in> set [7]"
    by blast
  have mem: "7 \<in> set (GetTagIds True initialised ?nt)" and absent: "3 \<notin> set (GetTagIds True initialised ?nt)"
    unfolding ids by simp_all
  from wide mem have published_mem: "(scast (7 :: c_int) :: int64_t) \<in> set [7]"
    by simp
  from hit mem tab obtain impl' ts
    where r: "GetTarget True 7 initialised ?nt =
              Inr (Some \<lparr>TagResult.id = 7,
                         TagResult.tx = Get as_Double (TagSubs.tx ts) ?nt,
                         TagResult.ty = Get as_Double (TagSubs.ty ts) ?nt,
                         TagResult.x = Get as_Double (TagSubs.x ts) ?nt,
                         TagResult.y = Get as_Double (TagSubs.y ts) ?nt,
                         TagResult.z = Get as_Double (TagSubs.z ts) ?nt,
                         TagResult.distance = Get as_Double (TagSubs.distance ts) ?nt,
                         TagResult.yaw = Get as_Double (TagSubs.yaw ts) ?nt,
                         TagResult.pitch = Get as_Double (TagSubs.pitch ts) ?nt,
                         TagResult.roll = Get as_Double (TagSubs.roll ts) ?nt\<rparr>, impl')"
      and src: "tag_subs initialised 7 = Some ts
               \<or> tag_subs initialised 7 = None
                 \<and> ts =
                   \<lparr>TagSubs.tx = \<lparr>sub_topic = Some (''XNav'' @ ''/targets/'' @ to_string 7 @ ''/tx''), sub_default = 0\<rparr>,
                    TagSubs.ty = \<lparr>sub_topic = Some (''XNav'' @ ''/targets/'' @ to_string 7 @ ''/ty''), sub_default = 0\<rparr>,
                    TagSubs.x = \<lparr>sub_topic = Some (''XNav'' @ ''/targets/'' @ to_string 7 @ ''/x''), sub_default = 0\<rparr>,
                    TagSubs.y = \<lparr>sub_topic = Some (''XNav'' @ ''/targets/'' @ to_string 7 @ ''/y''), sub_default = 0\<rparr>,
                    TagSubs.z = \<lparr>sub_topic = Some (''XNav'' @ ''/targets/'' @ to_string 7 @ ''/z''), sub_default = 0\<rparr>,
                    TagSubs.distance = \<lparr>sub_topic = Some (''XNav'' @ ''/targets/'' @ to_string 7 @ ''/distance''), sub_default = 0\<rparr>,
                    TagSubs.yaw = \<lparr>sub_topic = Some (''XNav'' @ ''/targets/'' @ to_string 7 @ ''/yaw''), sub_default = 0\<rparr>,
                    TagSubs.pitch = \<lparr>sub_topic = Some (''XNav'' @ ''/targets/'' @ to_string 7 @ ''/pitch''), sub_default = 0\<rparr>,
                    TagSubs.roll = \<lparr>sub_topic = Some (''XNav'' @ ''/targets/'' @ to_string 7 @ ''/roll''), sub_default = 0\<rparr>\<rparr>"
    by blast
  from src fresh have ts: "ts =
      \<lparr>TagSubs.tx = \<lparr>sub_topic = Some ''XNav/targets/7/tx'', sub_default = 0\<rparr>,
       TagSubs.ty = \<lparr>sub_topic = Some ''XNav/targets/7/ty'', sub_default = 0\<rparr>,
       TagSubs.x = \<lparr>sub_topic = Some ''XNav/targets/7/x'', sub_default = 0\<rparr>,
       TagSubs.y = \<lparr>sub_topic = Some ''XNav/targets/7/y'', sub_default = 0\<rparr>,
       TagSubs.z = \<lparr>sub_topic = Some ''XNav/targets/7/z'', sub_default = 0\<rparr>,
       TagSubs.distance = \<lparr>sub_topic = Some ''XNav/targets/7/distance'', sub_default = 0\<rparr>,
       TagSubs.yaw = \<lparr>sub_topic = Some ''XNav/targets/7/yaw'', sub_default = 0\<rparr>,
       TagSubs.pitch = \<lparr>sub_topic = Some ''XNav/targets/7/pitch'', sub_default = 0\<rparr>,
       TagSubs.roll = \<lparr>sub_topic = Some ''XNav/targets/7/roll'', sub_default = 0\<rparr>\<rparr>"
    by (simp add: seven)
  have found: "returned (GetTarget True 7 initialised ?nt) =
       Inr (Some \<lparr>TagResult.id = 7, TagResult.tx = 3.2, TagResult.ty = - 1.1, TagResult.x = 0,
                  TagResult.y = 0, TagResult.z = 2.5, TagResult.distance = 2.5,
                  TagResult.yaw = 0.4, TagResult.pitch = 0, TagResult.roll = 0\<rparr>)"
    unfolding r ts by (simp add: returned_def Get_Double published_def)
  from miss absent have lost: "GetTarget True 3
        (initialised\<lparr>tag_subs := (tag_subs initialised)(3 \<mapsto> Subscribe_TagSubs ''XNav/targets/3'')\<rparr>) ?nt =
       Inr (None, initialised\<lparr>tag_subs :=
           (tag_subs initialised)(3 \<mapsto> Subscribe_TagSubs ''XNav/targets/3'')\<rparr>)"
    by blast
  from bound feed published_mem tab found absent lost show ?thesis
    by - (intro conjI; assumption)
qed

text \<open>The claim as stated fails on a published id that does not fit an \<^verbatim>\<open>int\<close>: 7 is not an
  element of the published list \<open>[4294967303]\<close>, and \<^verbatim>\<open>GetTarget(7)\<close> returns a result.\<close>

theorem GetTarget_narrowing_counterexample:
  "topics (published [(''XNav/tagIds'', IntegerArray [4294967303]),
                      (''XNav/targets/7/tx'', Double 3.2)]) ''XNav/tagIds'' =
     Some (IntegerArray [4294967303])
   \<and> (scast (7 :: c_int) :: int64_t) \<notin> set [4294967303]
   \<and> returned (GetTarget True 7 initialised
        (published [(''XNav/tagIds'', IntegerArray [4294967303]),
                    (''XNav/targets/7/tx'', Double 3.2)])) =
       Inr (Some \<lparr>TagResult.id = 7, TagResult.tx = 3.2, TagResult.ty = 0, TagResult.x = 0,
                  TagResult.y = 0, TagResult.z = 0, TagResult.distance = 0, TagResult.yaw = 0,
                  TagResult.pitch = 0, TagResult.roll = 0\<rparr>)"
  by (simp add: concrete_defs facade_defs transport_defs)

text \<open>
  Claim C2: once \<^verbatim>\<open>OnNewTargets(cb)\<close> has been called, the library invokes \<open>cb\<close> with the
  \<^verbatim>\<open>GetAllTargets\<close> snapshot whenever detection data is published, and a new registration
  replaces the previous one. The code does the second part only. \<^verbatim>\<open>OnNewTargets\<close> stores
  the callback, and a later registration replaces it; \<^verbatim>\<open>Init\<close> hands nothing to the
  transport that refers to the slot, and no function reads it, so a stored callback changes
  no result of any call and no part of the state but the slot itself. Nothing in the
  library invokes the callback.
\<close>

theorem on_new_targets_never_read:
  "on_new_targets (OnNewTargets cb impl) = cb
   \<and> OnNewTargets cb2 (OnNewTargets cb impl) = OnNewTargets cb2 impl
   \<and> Init w srv (OnNewTargets cb impl, nt) =
       (OnNewTargets cb (fst (Init w srv (impl, nt))), snd (Init w srv (impl, nt)))
   \<and> HasTarget w (OnNewTargets cb impl) nt = HasTarget w impl nt
   \<and> GetNumTargets w (OnNewTargets cb impl) nt = GetNumTargets w impl nt
   \<and> GetTagIds w (OnNewTargets cb impl) nt = GetTagIds w impl nt
   \<and> GetRobotPose w (OnNewTargets cb impl) nt = GetRobotPose w impl nt
   \<and> GetOffsetPoint w (OnNewTargets cb impl) nt = GetOffsetPoint w impl nt
   \<and> GetStatus w (OnNewTargets cb impl) nt = GetStatus w impl nt
   \<and> IsConnected w (OnNewTargets cb impl) nt = IsConnected w impl nt
   \<and> SetTurretAngle w angle_deg (OnNewTargets cb impl) nt = SetTurretAngle w angle_deg impl nt
   \<and> SetTurretEnabled w enabled (OnNewTargets cb impl) nt = SetTurretEnabled w enabled impl nt
   \<and> SetMatchMode w enabled (OnNewTargets cb impl) nt = SetMatchMode w enabled impl nt
   \<and> GetPrimaryTarget w (OnNewTargets cb impl) nt =
       (case GetPrimaryTarget w impl nt of
          Inl e \<Rightarrow> Inl e
        | Inr (r, impl') \<Rightarrow> Inr (r, OnNewTargets cb impl'))
   \<and> GetTarget w i (OnNewTargets cb impl) nt =
       (case GetTarget w i impl nt of
          Inl e \<Rightarrow> Inl e
        | Inr (r, impl') \<Rightarrow> Inr (r, OnNewTargets cb impl'))
   \<and> GetAllTargets w (OnNewTargets cb impl) nt =
       (case GetAllTargets w impl nt of
          Inl e \<Rightarrow> Inl e
        | Inr (rs, impl') \<Rightarrow> Inr (rs, OnNewTargets cb impl'))"
  unfolding OnNewTargets_def
proof (intro conjI)
  have ids: "GetTagIds b (impl\<lparr>on_new_targets := cb\<rparr>) nt = GetTagIds b impl nt" for b
    by (simp add: GetTagIds_def)
  show "on_new_targets (impl\<lparr>on_new_targets := cb\<rparr>) = cb"
    and "impl\<lparr>on_new_targets := cb, on_new_targets := cb2\<rparr> = impl\<lparr>on_new_targets := cb2\<rparr>"
    by (simp_all)
  show "Init w srv (impl\<lparr>on_new_targets := cb\<rparr>, nt) =
       ((fst (Init w srv (impl, nt)))\<lparr>on_new_targets := cb\<rparr>, snd (Init w srv (impl, nt)))"
    by (simp add: Init_def Let_def)
  show "HasTarget w (impl\<lparr>on_new_targets := cb\<rparr>) nt = HasTarget w impl nt"
    and "GetNumTargets w (impl\<lparr>on_new_targets := cb\<rparr>) nt = GetNumTargets w impl nt"
    and "GetTagIds w (impl\<lparr>on_new_targets := cb\<rparr>) nt = GetTagIds w impl nt"
    and "GetRobotPose w (impl\<lparr>on_new_targets := cb\<rparr>) nt = GetRobotPose w impl nt"
    and "GetOffsetPoint w (impl\<lparr>on_new_targets := cb\<rparr>) nt = GetOffsetPoint w impl nt"
    and "IsConnected w (impl\<lparr>on_new_targets := cb\<rparr>) nt = IsConnected w impl nt"
    by (simp_all add: HasTarget_def GetNumTargets_def GetTagIds_def
        GetRobotPose_def GetOffsetPoint_def IsConnected_def)
  show "GetStatus w (impl\<lparr>on_new_targets := cb\<rparr>) nt = GetStatus w impl nt"
    by (simp add: GetStatus_def GetNumTargets_def IsConnected_def)
  show "SetTurretAngle w angle_deg (impl\<lparr>on_new_targets := cb\<rparr>) nt = SetTurretAngle w angle_deg impl nt"
    and "SetTurretEnabled w enabled (impl\<lparr>on_new_targets := cb\<rparr>) nt = SetTurretEnabled w enabled impl nt"
    and "SetMatchMode w enabled (impl\<lparr>on_new_targets := cb\<rparr>) nt = SetMatchMode w enabled impl nt"
    by (simp_all add: SetTurretAngle_def SetTurretEnabled_def SetMatchMode_def)
  show "GetPrimaryTarget w (impl\<lparr>on_new_targets := cb\<rparr>) nt =
       (case GetPrimaryTarget w impl nt of
          Inl e \<Rightarrow> Inl e
        | Inr (r, impl') \<Rightarrow> Inr (r, impl'\<lparr>on_new_targets := cb\<rparr>))"
    by (simp add: GetPrimaryTarget_def Let_def ReadTag_callback)
  show "GetTarget w i (impl\<lparr>on_new_targets := cb\<rparr>) nt =
       (case GetTarget w i impl nt of
          Inl e \<Rightarrow> Inl e
        | Inr (r, impl') \<Rightarrow> Inr (r, impl'\<lparr>on_new_targets := cb\<rparr>))"
    by (simp add: GetTarget_def Let_def ReadTag_callback ids split: sum.splits)
  show "GetAllTargets w (impl\<lparr>on_new_targets := cb\<rparr>) nt =
       (case GetAllTargets w impl nt of
          Inl e \<Rightarrow> Inl e
        | Inr (rs, impl') \<Rightarrow> Inr (rs, impl'\<lparr>on_new_targets := cb\<rparr>))"
    by (simp add: GetAllTargets_def GetAllTargets_loop_callback ids)
qed

text \<open>
  Claim C3. For a \<^verbatim>\<open>robotPose\<close> publication of length \<open>n\<close>, \<^verbatim>\<open>GetRobotPose()\<close> has
  \<open>valid = true\<close> if and only if \<open>n \<ge> 6\<close>. When \<open>n \<ge> 6\<close>, the six fields are the elements
  0 to 5 and the elements after them are ignored: the publication cut to its first six
  elements gives the same record. When \<open>n < 6\<close>, \<open>valid = false\<close> and the six fields are zero.
\<close>

theorem GetRobotPose_valid_iff:
  assumes "sub_topic (sub_robot_pose impl) = Some p"
    and "topics nt p = Some (DoubleArray data)"
  shows "(RobotPose.valid (GetRobotPose True impl nt) \<longleftrightarrow> length data \<ge> 6)
       \<and> (length data \<ge> 6 \<longrightarrow>
            GetRobotPose True impl nt =
              \<lparr>RobotPose.x = data ! 0, RobotPose.y = data ! 1, RobotPose.z = data ! 2,
               RobotPose.roll = data ! 3, RobotPose.pitch = data ! 4,
               RobotPose.yaw_deg = data ! 5, RobotPose.valid = True\<rparr>
          \<and> GetRobotPose True impl (nt\<lparr>topics := (topics nt)(p \<mapsto> DoubleArray (take 6 data))\<rparr>) =
              GetRobotPose True impl nt)
       \<and> (length data < 6 \<longrightarrow>
            GetRobotPose True impl nt =
              \<lparr>RobotPose.x = 0, RobotPose.y = 0, RobotPose.z = 0, RobotPose.roll = 0,
               RobotPose.pitch = 0, RobotPose.yaw_deg = 0, RobotPose.valid = False\<rparr>)"
  using assms
  by (simp add: GetRobotPose_def Get_or_def RobotPose_default_def Let_def)

text \<open>The two pose scenarios of the specification, the first with a seventh element.\<close>

theorem GetRobotPose_valid_iff_witness:
  "GetRobotPose True initialised
       (published [(''XNav/robotPose'', DoubleArray [1, 2, 0, 0, 0, 90, 5])]) =
     \<lparr>RobotPose.x = 1, RobotPose.y = 2, RobotPose.z = 0, RobotPose.roll = 0,
      RobotPose.pitch = 0, RobotPose.yaw_deg = 90, RobotPose.valid = True\<rparr>
   \<and> GetRobotPose True initialised
       (published [(''XNav/robotPose'', DoubleArray [1, 2, 0])]) =
     \<lparr>RobotPose.x = 0, RobotPose.y = 0, RobotPose.z = 0, RobotPose.roll = 0,
      RobotPose.pitch = 0, RobotPose.yaw_deg = 0, RobotPose.valid = False\<rparr>"
proof -
  let ?impl = "initialised"
  let ?long = "published [(''XNav/robotPose'', DoubleArray [1, 2, 0, 0, 0, 90, 5])]"
  let ?short = "published [(''XNav/robotPose'', DoubleArray [1, 2, 0])]"
  have bound: "sub_topic (sub_robot_pose ?impl) = Some ''XNav/robotPose''"
    by (simp add: concrete_defs facade_defs transport_defs)
  have long: "topics ?long ''XNav/robotPose'' = Some (DoubleArray [1, 2, 0, 0, 0, 90, 5])"
    by (simp add: published_def)
  have short: "topics ?short ''XNav/robotPose'' = Some (DoubleArray [1, 2, 0])"
    by (simp add: published_def)
  from GetRobotPose_valid_iff [OF bound long] GetRobotPose_valid_iff [OF bound short]
  show ?thesis by simp
qed

text \<open>
  Claim C4, as amended. Only \<^verbatim>\<open>GetPrimaryTarget\<close> tests \<^verbatim>\<open>id < 0\<close>: for a primary id
  below zero it returns the default \<open>TagResult\<close> (id \<open>-1\<close>, every numeric field zero), for
  any other it returns what \<^verbatim>\<open>ReadTag\<close> assembles. \<^verbatim>\<open>GetTarget\<close>, for an id in the tag
  list, and \<^verbatim>\<open>GetAllTargets\<close>, for each element of the tag list, return what \<^verbatim>\<open>ReadTag\<close>
  assembles, without a test of the sign. On every path the record \<^verbatim>\<open>ReadTag\<close> assembles has
  its id field equal to the requested id, negative or not, and its nine numeric fields
  read from the subscribers of that id.
\<close>

theorem tag_assembly_paths:
  "GetPrimaryTarget True impl nt =
     (if sint (ucast (Get_or as_Integer (sub_primary_id impl) (- 1) nt) :: c_int) < 0
      then Inr (TagResult_default, impl)
      else ReadTag True (ucast (Get_or as_Integer (sub_primary_id impl) (- 1) nt)) impl nt)
   \<and> TagResult_default =
       \<lparr>TagResult.id = - 1, TagResult.tx = 0, TagResult.ty = 0, TagResult.x = 0,
        TagResult.y = 0, TagResult.z = 0, TagResult.distance = 0, TagResult.yaw = 0,
        TagResult.pitch = 0, TagResult.roll = 0\<rparr>
   \<and> (i \<in> set (GetTagIds True impl nt) \<longrightarrow>
        GetTarget True i impl nt =
          (case ReadTag True i impl nt of
             Inl e \<Rightarrow> Inl e
           | Inr (r, impl') \<Rightarrow> Inr (Some r, impl')))
   \<and> (table impl = Some t \<longrightarrow>
        (\<exists>rs impl'. GetAllTargets True impl nt = Inr (rs, impl')
           \<and> map TagResult.id rs = GetTagIds True impl nt
           \<and> (\<forall>k<length rs.
                 \<exists>s. ReadTag True (GetTagIds True impl nt ! k) impl nt = Inr (rs ! k, s))))
   \<and> (table impl = Some t \<longrightarrow>
        (\<exists>r impl' ts. ReadTag True i impl nt = Inr (r, impl')
           \<and> tag_subs impl' i = Some ts
           \<and> (tag_subs impl i = None \<or> tag_subs impl i = Some ts)
           \<and> TagResult.id r = i
           \<and> TagResult.tx r = Get as_Double (TagSubs.tx ts) nt
           \<and> TagResult.ty r = Get as_Double (TagSubs.ty ts) nt
           \<and> TagResult.x r = Get as_Double (TagSubs.x ts) nt
           \<and> TagResult.y r = Get as_Double (TagSubs.y ts) nt
           \<and> TagResult.z r = Get as_Double (TagSubs.z ts) nt
           \<and> TagResult.distance r = Get as_Double (TagSubs.distance ts) nt
           \<and> TagResult.yaw r = Get as_Double (TagSubs.yaw ts) nt
           \<and> TagResult.pitch r = Get as_Double (TagSubs.pitch ts) nt
           \<and> TagResult.roll r = Get as_Double (TagSubs.roll ts) nt))"
proof (intro conjI impI)
  show "GetPrimaryTarget True impl nt =
     (if sint (ucast (Get_or as_Integer (sub_primary_id impl) (- 1) nt) :: c_int) < 0
      then Inr (TagResult_default, impl)
      else ReadTag True (ucast (Get_or as_Integer (sub_primary_id impl) (- 1) nt)) impl nt)"
    by (simp add: GetPrimaryTarget_def Let_def)
  show "TagResult_default =
       \<lparr>TagResult.id = - 1, TagResult.tx = 0, TagResult.ty = 0, TagResult.x = 0,
        TagResult.y = 0, TagResult.z = 0, TagResult.distance = 0, TagResult.yaw = 0,
        TagResult.pitch = 0, TagResult.roll = 0\<rparr>"
    by (simp add: TagResult_default_def)
  show "GetTarget True i impl nt =
          (case ReadTag True i impl nt of
             Inl e \<Rightarrow> Inl e
           | Inr (r, impl') \<Rightarrow> Inr (Some r, impl'))"
    if "i \<in> set (GetTagIds True impl nt)"
    using that by (simp add: GetTarget_def Let_def)
  show "\<exists>rs impl'. GetAllTargets True impl nt = Inr (rs, impl')
           \<and> map TagResult.id rs = GetTagIds True impl nt
           \<and> (\<forall>k<length rs.
                 \<exists>s. ReadTag True (GetTagIds True impl nt ! k) impl nt = Inr (rs ! k, s))"
    if tab: "table impl = Some t"
  proof -
    from GetAllTargets_elementwise [OF tab, of True nt]
    obtain rs impl' where all: "GetAllTargets True impl nt = Inr (rs, impl')"
      and len: "length rs = length (GetTagIds True impl nt)"
      and nth: "\<forall>k<length (GetTagIds True impl nt).
                 \<exists>s. ReadTag True (GetTagIds True impl nt ! k) impl nt = Inr (rs ! k, s)"
      by blast
    have "map TagResult.id rs = GetTagIds True impl nt"
    proof (rule nth_equalityI)
      show "length (map TagResult.id rs) = length (GetTagIds True impl nt)"
        using len by simp
    next
      fix k assume "k < length (map TagResult.id rs)"
      then have k: "k < length (GetTagIds True impl nt)" using len by simp
      with nth obtain s where "ReadTag True (GetTagIds True impl nt ! k) impl nt = Inr (rs ! k, s)"
        by blast
      from ReadTag_id [OF this] show "map TagResult.id rs ! k = GetTagIds True impl nt ! k"
        using k len by simp
    qed
    with all len nth show ?thesis by auto
  qed
  show "\<exists>r impl' ts. ReadTag True i impl nt = Inr (r, impl')
           \<and> tag_subs impl' i = Some ts
           \<and> (tag_subs impl i = None \<or> tag_subs impl i = Some ts)
           \<and> TagResult.id r = i
           \<and> TagResult.tx r = Get as_Double (TagSubs.tx ts) nt
           \<and> TagResult.ty r = Get as_Double (TagSubs.ty ts) nt
           \<and> TagResult.x r = Get as_Double (TagSubs.x ts) nt
           \<and> TagResult.y r = Get as_Double (TagSubs.y ts) nt
           \<and> TagResult.z r = Get as_Double (TagSubs.z ts) nt
           \<and> TagResult.distance r = Get as_Double (TagSubs.distance ts) nt
           \<and> TagResult.yaw r = Get as_Double (TagSubs.yaw ts) nt
           \<and> TagResult.pitch r = Get as_Double (TagSubs.pitch ts) nt
           \<and> TagResult.roll r = Get as_Double (TagSubs.roll ts) nt"
    if tab: "table impl = Some t"
  proof -
    from GetTagSubs_total [OF tab] obtain ts impl' where g: "GetTagSubs i impl = Inr (ts, impl')"
      by blast
    have 1: "ReadTag True i impl nt = Inr (read_subs i ts nt, impl')"
      using g by (simp add: ReadTag_def)
    have 2: "tag_subs impl' i = Some ts"
      using GetTagSubs_Inr [OF g] by simp
    note 3 = GetTagSubs_source [OF g]
    show ?thesis
      by (intro exI [of _ "read_subs i ts nt"] exI [of _ impl'] exI [of _ ts])
        (simp add: 1 2 3 read_subs_def TagResult_default_def)
  qed
qed

text \<open>Tag 7 in view: the lookup and the enumeration return the record read from its
  topics.\<close>

theorem tag_assembly_paths_witness:
  "7 \<in> set (GetTagIds True initialised
        (published [(''XNav/tagIds'', IntegerArray [7]), (''XNav/targets/7/tx'', Double 2)]))
   \<and> table initialised = Some ''XNav''
   \<and> returned (GetTarget True 7 initialised
        (published [(''XNav/tagIds'', IntegerArray [7]), (''XNav/targets/7/tx'', Double 2)])) =
       Inr (Some (TagResult_default\<lparr>TagResult.id := 7, TagResult.tx := 2\<rparr>))
   \<and> (\<exists>rs impl'. GetAllTargets True initialised
        (published [(''XNav/tagIds'', IntegerArray [7]), (''XNav/targets/7/tx'', Double 2)]) =
          Inr (rs, impl')
        \<and> map TagResult.id rs = [7])"
proof -
  let ?nt = "published [(''XNav/tagIds'', IntegerArray [7]), (''XNav/targets/7/tx'', Double 2)]"
  have ids: "GetTagIds True initialised ?nt = [7]"
    by (simp add: concrete_defs facade_defs transport_defs)
  have mem: "7 \<in> set (GetTagIds True initialised ?nt)"
    unfolding ids by simp
  have tab: "table initialised = Some ''XNav''"
    by (simp add: concrete_defs facade_defs transport_defs)
  have read: "ReadTag True 7 initialised ?nt =
      Inr (TagResult_default\<lparr>TagResult.id := 7, TagResult.tx := 2\<rparr>,
           initialised\<lparr>tag_subs := [7 \<mapsto> Subscribe_TagSubs ''XNav/targets/7'']\<rparr>)"
    by (simp add: concrete_defs facade_defs transport_defs)
  note paths = tag_assembly_paths [where impl = initialised and nt = ?nt and i = 7
      and t = "''XNav''"]
  from paths mem have "GetTarget True 7 initialised ?nt =
      (case ReadTag True 7 initialised ?nt of
         Inl e \<Rightarrow> Inl e
       | Inr (r, impl') \<Rightarrow> Inr (Some r, impl'))"
    by blast
  then have look: "returned (GetTarget True 7 initialised ?nt) =
      Inr (Some (TagResult_default\<lparr>TagResult.id := 7, TagResult.tx := 2\<rparr>))"
    by (simp add: read returned_def)
  from paths tab have "\<exists>rs impl'. GetAllTargets True initialised ?nt = Inr (rs, impl')
           \<and> map TagResult.id rs = GetTagIds True initialised ?nt
           \<and> (\<forall>k<length rs.
                 \<exists>s. ReadTag True (GetTagIds True initialised ?nt ! k) initialised ?nt = Inr (rs ! k, s))"
    by blast
  then have "\<exists>rs impl'. GetAllTargets True initialised ?nt = Inr (rs, impl')
        \<and> map TagResult.id rs = [7]"
    unfolding ids by auto
  with mem tab look show ?thesis by simp
qed

text \<open>The claim as stated fails where the tag list holds a negative id: \<^verbatim>\<open>GetTarget(-5)\<close>
  and \<^verbatim>\<open>GetAllTargets()\<close> return a record with id \<open>-5\<close> and the published \<open>tx\<close>, not the
  default record.\<close>

theorem tag_assembly_counterexample:
  "sint (- 5 :: c_int) < 0
   \<and> returned (GetTarget True (- 5) initialised
        (published [(''XNav/tagIds'', IntegerArray [- 5]), (''XNav/targets/-5/tx'', Double 1.5)])) =
       Inr (Some \<lparr>TagResult.id = - 5, TagResult.tx = 1.5, TagResult.ty = 0, TagResult.x = 0,
                  TagResult.y = 0, TagResult.z = 0, TagResult.distance = 0, TagResult.yaw = 0,
                  TagResult.pitch = 0, TagResult.roll = 0\<rparr>)
   \<and> returned (GetAllTargets True initialised
        (published [(''XNav/tagIds'', IntegerArray [- 5]), (''XNav/targets/-5/tx'', Double 1.5)])) =
       Inr [\<lparr>TagResult.id = - 5, TagResult.tx = 1.5, TagResult.ty = 0, TagResult.x = 0,
                  TagResult.y = 0, TagResult.z = 0, TagResult.distance = 0, TagResult.yaw = 0,
                  TagResult.pitch = 0, TagResult.roll = 0\<rparr>]
   \<and> \<lparr>TagResult.id = - 5, TagResult.tx = 1.5, TagResult.ty = 0, TagResult.x = 0,
                  TagResult.y = 0, TagResult.z = 0, TagResult.distance = 0, TagResult.yaw = 0,
                  TagResult.pitch = 0, TagResult.roll = 0\<rparr> \<noteq> TagResult_default"
  by (simp add: concrete_defs facade_defs transport_defs)

text \<open>
  Claim C5. Whatever the subscriber cache \<^verbatim>\<open>tag_subs\<close> and the topics hold (once \<^verbatim>\<open>Init\<close>
  has bound the table), \<^verbatim>\<open>GetAllTargets()\<close> is the element-wise map of tag assembly
  (\<^verbatim>\<open>ReadTag\<close>) over \<^verbatim>\<open>GetTagIds()\<close>: it has the length of \<^verbatim>\<open>GetTagIds()\<close>, and its \<open>k\<close>-th
  element is the tag result assembled for the \<open>k\<close>-th tag id.
\<close>

theorem GetAllTargets_map:
  assumes "table impl = Some t"
  shows "\<exists>rs impl'. GetAllTargets w impl nt = Inr (rs, impl')
           \<and> map Inr rs = map (\<lambda>i. returned (ReadTag w i impl nt)) (GetTagIds w impl nt)
           \<and> length rs = length (GetTagIds w impl nt)
           \<and> (\<forall>k<length (GetTagIds w impl nt).
                 \<exists>s. ReadTag w (GetTagIds w impl nt ! k) impl nt = Inr (rs ! k, s))"
proof -
  from GetAllTargets_elementwise [OF assms, of w nt]
  obtain rs impl' where all: "GetAllTargets w impl nt = Inr (rs, impl')"
    and len: "length rs = length (GetTagIds w impl nt)"
    and nth: "\<forall>k<length (GetTagIds w impl nt).
                 \<exists>s. ReadTag w (GetTagIds w impl nt ! k) impl nt = Inr (rs ! k, s)"
    by blast
  have "map Inr rs = map (\<lambda>i. returned (ReadTag w i impl nt)) (GetTagIds w impl nt)"
  proof (rule nth_equalityI)
    show "length (map Inr rs) = length (map (\<lambda>i. returned (ReadTag w i impl nt)) (GetTagIds w impl nt))"
      using len by simp
  next
    fix k assume "k < length (map Inr rs)"
    then have k: "k < length (GetTagIds w impl nt)" using len by simp
    with nth obtain s where "ReadTag w (GetTagIds w impl nt ! k) impl nt = Inr (rs ! k, s)"
      by blast
    then show "map Inr rs ! k = map (\<lambda>i. returned (ReadTag w i impl nt)) (GetTagIds w impl nt) ! k"
      using k len by (simp add: returned_def)
  qed
  with all len nth show ?thesis by blast
qed

text \<open>Two tags in view, the second one published first: the order is that of \<^verbatim>\<open>tagIds\<close>.\<close>

theorem GetAllTargets_map_witness:
  "table initialised = Some ''XNav''
   \<and> GetTagIds True initialised
        (published [(''XNav/targets/3/tx'', Double 4), (''XNav/tagIds'', IntegerArray [7, 3]),
                    (''XNav/targets/7/tx'', Double 2)]) = [7, 3]
   \<and> (\<exists>rs impl'. GetAllTargets True initialised
        (published [(''XNav/targets/3/tx'', Double 4), (''XNav/tagIds'', IntegerArray [7, 3]),
                    (''XNav/targets/7/tx'', Double 2)]) = Inr (rs, impl')
        \<and> map TagResult.id rs = [7, 3] \<and> map TagResult.tx rs = [2, 4])"
proof -
  let ?impl = "initialised"
  let ?nt = "published [(''XNav/targets/3/tx'', Double 4), (''XNav/tagIds'', IntegerArray [7, 3]),
                    (''XNav/targets/7/tx'', Double 2)]"
  have tab: "table ?impl = Some ''XNav''"
    by (simp add: concrete_defs facade_defs transport_defs)
  have ids: "GetTagIds True ?impl ?nt = [7, 3]"
    by (simp add: concrete_defs facade_defs transport_defs)
  have r7: "returned (ReadTag True 7 ?impl ?nt) = Inr (TagResult_default\<lparr>TagResult.id := 7, TagResult.tx := 2\<rparr>)"
    by (simp add: concrete_defs facade_defs transport_defs)
  have r3: "returned (ReadTag True 3 ?impl ?nt) = Inr (TagResult_default\<lparr>TagResult.id := 3, TagResult.tx := 4\<rparr>)"
    by (simp add: concrete_defs facade_defs transport_defs)
  from GetAllTargets_map [OF tab, of True ?nt]
  obtain rs impl' where all: "GetAllTargets True ?impl ?nt = Inr (rs, impl')"
    and m: "map Inr rs = map (\<lambda>i. returned (ReadTag True i ?impl ?nt)) (GetTagIds True ?impl ?nt)"
    by blast
  from m have "map Inr rs = [Inr (TagResult_default\<lparr>TagResult.id := 7, TagResult.tx := 2\<rparr>) :: fault + TagResult,
                             Inr (TagResult_default\<lparr>TagResult.id := 3, TagResult.tx := 4\<rparr>)]"
    unfolding ids by (simp add: r7 r3)
  then have "rs = [TagResult_default\<lparr>TagResult.id := 7, TagResult.tx := 2\<rparr>,
                   TagResult_default\<lparr>TagResult.id := 3, TagResult.tx := 4\<rparr>]"
    by (auto simp: map_eq_Cons_conv)
  then have "map TagResult.id rs = [7, 3] \<and> map TagResult.tx rs = [2, 4]"
    by simp
  with all have "\<exists>rs impl'. GetAllTargets True ?impl ?nt = Inr (rs, impl')
        \<and> map TagResult.id rs = [7, 3] \<and> map TagResult.tx rs = [2, 4]"
    by (intro exI [of _ rs] exI [of _ impl']) simp
  with tab ids show ?thesis by simp
qed




text \<open>
  Claim C7. \<^verbatim>\<open>Init\<close> is idempotent with respect to reads: after a second \<^verbatim>\<open>Init\<close> with the
  same server address the facade and the transport are in the state the first one left,
  so whatever is read from them (\<open>read\<close> is any query) is the same as after a single
  \<^verbatim>\<open>Init\<close>. This holds from every state, that of a newly constructed facade among them.
\<close>

theorem Init_idempotent:
  "Init w srv (Init w srv s) = Init w srv s
   \<and> read (Init w srv (Init w srv (XNav name, nt))) = read (Init w srv (XNav name, nt))"
  by (simp add: Init_def Let_def StartClient4_def SetServer_def)

text \<open>
  Claim C8: the insertions of new per-tag subscriber entries are serialized, for instance by
  a mutex guarding the per-tag map. The code declares \<^verbatim>\<open>data_mutex\<close> and never locks it.
  Two threads ask for tag 7 on an initialised facade whose cache is empty. After one step
  of each, both have missed in the search and both stand before the insertion, with
  \<^verbatim>\<open>data_mutex\<close> unlocked; after another step of each, both have written the entry. No step
  of \<^verbatim>\<open>GetTagSubs\<close> changes \<^verbatim>\<open>data_mutex\<close>.
\<close>

theorem GetTagSubs_unserialized:
  "interleave 7 7 [True, False] (At_find, At_find, initialised) =
     (At_insert (Subscribe_TagSubs ''XNav/targets/7''),
      At_insert (Subscribe_TagSubs ''XNav/targets/7''),
      initialised)
   \<and> \<not> data_mutex initialised
   \<and> interleave 7 7 [True, False, True, False] (At_find, At_find, initialised) =
     (Returned (Subscribe_TagSubs ''XNav/targets/7''),
      Returned (Subscribe_TagSubs ''XNav/targets/7''),
      initialised\<lparr>tag_subs := [7 \<mapsto> Subscribe_TagSubs ''XNav/targets/7'']\<rparr>)
   \<and> data_mutex (snd (GetTagSubs_step i pc (impl :: 'cb Impl))) = data_mutex impl"
proof (intro conjI)
  have tab: "table initialised = Some ''XNav''" and cache: "tag_subs initialised = Map.empty"
    by (simp_all add: concrete_defs facade_defs transport_defs)
  have name: "to_string 7 = ''7''"
    by (simp add: to_string_def digits.simps)
  have find: "GetTagSubs_step 7 At_find initialised =
      (At_insert (Subscribe_TagSubs ''XNav/targets/7''), initialised)"
    by (simp add: GetTagSubs_step_def tab cache name GetSubTable_def)
  have insert: "GetTagSubs_step 7 (At_insert (Subscribe_TagSubs ''XNav/targets/7'')) impl2 =
      (Returned (Subscribe_TagSubs ''XNav/targets/7''),
       impl2\<lparr>tag_subs := (tag_subs impl2)(7 \<mapsto> Subscribe_TagSubs ''XNav/targets/7'')\<rparr>)"
    for impl2 :: "unit Impl"
    by (simp add: GetTagSubs_step_def)
  show "interleave 7 7 [True, False] (At_find, At_find, initialised) =
     (At_insert (Subscribe_TagSubs ''XNav/targets/7''),
      At_insert (Subscribe_TagSubs ''XNav/targets/7''),
      initialised)"
    by (simp add: find)
  show "\<not> data_mutex initialised"
    by (simp add: concrete_defs facade_defs transport_defs)
  show "interleave 7 7 [True, False, True, False] (At_find, At_find, initialised) =
     (Returned (Subscribe_TagSubs ''XNav/targets/7''),
      Returned (Subscribe_TagSubs ''XNav/targets/7''),
      initialised\<lparr>tag_subs := [7 \<mapsto> Subscribe_TagSubs ''XNav/targets/7'']\<rparr>)"
    by (simp add: find insert cache)
  show "data_mutex (snd (GetTagSubs_step i pc impl)) = data_mutex impl"
    by (rule GetTagSubs_step_data_mutex)
qed

text \<open>
  Claim C9, as amended. \<^verbatim>\<open>GetPrimaryTarget()\<close> narrows the id delivered on the
  \<^verbatim>\<open>primaryTagId\<close> topic to \<^verbatim>\<open>int\<close> and tests the sign of the narrowed id only. Every
  delivered id from 0 to \<open>2^31 - 1\<close> is left unchanged by the narrowing, and not negative.
  For every delivered id whose narrowing is not negative, it returns what \<^verbatim>\<open>ReadTag\<close>
  assembles for the narrowed id, whatever the tag list holds: the record with its id field
  set to that id and its nine numeric fields read through the cached subscribers of the id
  or, when none is cached, through new ones on the topics \<^verbatim>\<open>targets/<id>/tx\<close> to
  \<^verbatim>\<open>targets/<id>/roll\<close>. When the id is not in the tag list (a stale primary),
  \<^verbatim>\<open>GetTarget\<close> returns the empty optional for the same id. A delivered id whose narrowing
  is negative gives the default record.
\<close>

theorem GetPrimaryTarget_stale:
  assumes "sub_topic (sub_primary_id impl) = Some p"
    and "topics nt p = Some (Integer v)"
    and "i = ucast v"
  shows "(0 \<le> sint v \<longrightarrow> sint v < 2 ^ 31 \<longrightarrow> sint i = sint v)
       \<and> (0 \<le> sint i \<longrightarrow> GetPrimaryTarget True impl nt = ReadTag True i impl nt)
       \<and> (0 \<le> sint i \<longrightarrow> table impl = Some t \<longrightarrow>
            (\<exists>impl' ts.
               GetPrimaryTarget True impl nt =
                 Inr (\<lparr>TagResult.id = i,
                       TagResult.tx = Get as_Double (TagSubs.tx ts) nt,
                       TagResult.ty = Get as_Double (TagSubs.ty ts) nt,
                       TagResult.x = Get as_Double (TagSubs.x ts) nt,
                       TagResult.y = Get as_Double (TagSubs.y ts) nt,
                       TagResult.z = Get as_Double (TagSubs.z ts) nt,
                       TagResult.distance = Get as_Double (TagSubs.distance ts) nt,
                       TagResult.yaw = Get as_Double (TagSubs.yaw ts) nt,
                       TagResult.pitch = Get as_Double (TagSubs.pitch ts) nt,
                       TagResult.roll = Get as_Double (TagSubs.roll ts) nt\<rparr>, impl')
               \<and> tag_subs impl' i = Some ts
               \<and> (tag_subs impl i = Some ts
                  \<or> tag_subs impl i = None
                    \<and> ts =
                      \<lparr>TagSubs.tx = \<lparr>sub_topic = Some (t @ ''/targets/'' @ to_string i @ ''/tx''), sub_default = 0\<rparr>,
                       TagSubs.ty = \<lparr>sub_topic = Some (t @ ''/targets/'' @ to_string i @ ''/ty''), sub_default = 0\<rparr>,
                       TagSubs.x = \<lparr>sub_topic = Some (t @ ''/targets/'' @ to_string i @ ''/x''), sub_default = 0\<rparr>,
                       TagSubs.y = \<lparr>sub_topic = Some (t @ ''/targets/'' @ to_string i @ ''/y''), sub_default = 0\<rparr>,
                       TagSubs.z = \<lparr>sub_topic = Some (t @ ''/targets/'' @ to_string i @ ''/z''), sub_default = 0\<rparr>,
                       TagSubs.distance = \<lparr>sub_topic = Some (t @ ''/targets/'' @ to_string i @ ''/distance''), sub_default = 0\<rparr>,
                       TagSubs.yaw = \<lparr>sub_topic = Some (t @ ''/targets/'' @ to_string i @ ''/yaw''), sub_default = 0\<rparr>,
                       TagSubs.pitch = \<lparr>sub_topic = Some (t @ ''/targets/'' @ to_string i @ ''/pitch''), sub_default = 0\<rparr>,
                       TagSubs.roll = \<lparr>sub_topic = Some (t @ ''/targets/'' @ to_string i @ ''/roll''), sub_default = 0\<rparr>\<rparr>)))
       \<and> (i \<notin> set (GetTagIds True impl nt) \<longrightarrow> GetTarget True i impl nt = Inr (None, impl))
       \<and> (sint i < 0 \<longrightarrow> GetPrimaryTarget True impl nt = Inr (TagResult_default, impl))"
proof (intro conjI impI)
  have id: "ucast (Get_or as_Integer (sub_primary_id impl) (- 1) nt) = i"
    using assms by (simp add: Get_or_def)
  show "sint i = sint v" if "0 \<le> sint v" and "sint v < 2 ^ 31"
    unfolding assms(3) using that by (intro narrow_in_range) simp_all
  show eq: "GetPrimaryTarget True impl nt = ReadTag True i impl nt" if "0 \<le> sint i"
    using that by (simp add: GetPrimaryTarget_def Let_def id)
  show "GetPrimaryTarget True impl nt = Inr (TagResult_default, impl)" if "sint i < 0"
    using that by (simp add: GetPrimaryTarget_def Let_def id)
  show "GetTarget True i impl nt = Inr (None, impl)" if "i \<notin> set (GetTagIds True impl nt)"
    using that by (simp add: GetTarget_def Let_def)
  show "\<exists>impl' ts.
               GetPrimaryTarget True impl nt =
                 Inr (\<lparr>TagResult.id = i,
                       TagResult.tx = Get as_Double (TagSubs.tx ts) nt,
                       TagResult.ty = Get as_Double (TagSubs.ty ts) nt,
                       TagResult.x = Get as_Double (TagSubs.x ts) nt,
                       TagResult.y = Get as_Double (TagSubs.y ts) nt,
                       TagResult.z = Get as_Double (TagSubs.z ts) nt,
                       TagResult.distance = Get as_Double (TagSubs.distance ts) nt,
                       TagResult.yaw = Get as_Double (TagSubs.yaw ts) nt,
                       TagResult.pitch = Get as_Double (TagSubs.pitch ts) nt,
                       TagResult.roll = Get as_Double (TagSubs.roll ts) nt\<rparr>, impl')
               \<and> tag_subs impl' i = Some ts
               \<and> (tag_subs impl i = Some ts
                  \<or> tag_subs impl i = None
                    \<and> ts =
                      \<lparr>TagSubs.tx = \<lparr>sub_topic = Some (t @ ''/targets/'' @ to_string i @ ''/tx''), sub_default = 0\<rparr>,
                       TagSubs.ty = \<lparr>sub_topic = Some (t @ ''/targets/'' @ to_string i @ ''/ty''), sub_default = 0\<rparr>,
                       TagSubs.x = \<lparr>sub_topic = Some (t @ ''/targets/'' @ to_string i @ ''/x''), sub_default = 0\<rparr>,
                       TagSubs.y = \<lparr>sub_topic = Some (t @ ''/targets/'' @ to_string i @ ''/y''), sub_default = 0\<rparr>,
                       TagSubs.z = \<lparr>sub_topic = Some (t @ ''/targets/'' @ to_string i @ ''/z''), sub_default = 0\<rparr>,
                       TagSubs.distance = \<lparr>sub_topic = Some (t @ ''/targets/'' @ to_string i @ ''/distance''), sub_default = 0\<rparr>,
                       TagSubs.yaw = \<lparr>sub_topic = Some (t @ ''/targets/'' @ to_string i @ ''/yaw''), sub_default = 0\<rparr>,
                       TagSubs.pitch = \<lparr>sub_topic = Some (t @ ''/targets/'' @ to_string i @ ''/pitch''), sub_default = 0\<rparr>,
                       TagSubs.roll = \<lparr>sub_topic = Some (t @ ''/targets/'' @ to_string i @ ''/roll''), sub_default = 0\<rparr>\<rparr>)"
    if pos: "0 \<le> sint i" and tab: "table impl = Some t"
  proof -
    from ReadTag_record [OF tab, of i nt] obtain impl' ts
      where read: "ReadTag True i impl nt = Inr (read_subs i ts nt, impl')"
        and cache: "tag_subs impl' i = Some ts"
        and src: "tag_subs impl i = Some ts
                \<or> tag_subs impl i = None \<and> ts = Subscribe_TagSubs (t @ ''/targets/'' @ to_string i)"
      by blast
    have "GetPrimaryTarget True impl nt = Inr (read_subs i ts nt, impl')"
      using eq [OF pos] read by simp
    with cache src show ?thesis
      by (intro exI [of _ impl'] exI [of _ ts])
        (simp add: read_subs_record Subscribe_TagSubs_record)
  qed
qed

text \<open>A stale primary: the primary id is still 7 while only tag 3 is in view.\<close>

theorem GetPrimaryTarget_stale_witness:
  "sint (7 :: c_int) = sint (7 :: int64_t)
   \<and> returned (GetPrimaryTarget True initialised
      (published [(''XNav/primaryTagId'', Integer 7), (''XNav/tagIds'', IntegerArray [3]),
                  (''XNav/targets/7/distance'', Double 2.5)])) =
     Inr \<lparr>TagResult.id = 7, TagResult.tx = 0, TagResult.ty = 0, TagResult.x = 0,
          TagResult.y = 0, TagResult.z = 0, TagResult.distance = 2.5, TagResult.yaw = 0,
          TagResult.pitch = 0, TagResult.roll = 0\<rparr>
   \<and> GetTarget True 7 initialised
      (published [(''XNav/primaryTagId'', Integer 7), (''XNav/tagIds'', IntegerArray [3]),
                  (''XNav/targets/7/distance'', Double 2.5)]) = Inr (None, initialised)"
proof -
  let ?nt = "published [(''XNav/primaryTagId'', Integer 7), (''XNav/tagIds'', IntegerArray [3]),
                  (''XNav/targets/7/distance'', Double 2.5)]"
  have bound: "sub_topic (sub_primary_id initialised) = Some ''XNav/primaryTagId''"
    by (simp add: concrete_defs facade_defs transport_defs)
  have feed: "topics ?nt ''XNav/primaryTagId'' = Some (Integer 7)"
    by (simp add: published_def)
  have narrow: "(7 :: c_int) = ucast (7 :: int64_t)"
    and small: "0 \<le> sint (7 :: int64_t)" "sint (7 :: int64_t) < 2 ^ 31"
    and nonneg: "0 \<le> sint (7 :: c_int)"
    by simp_all
  have absent: "7 \<notin> set (GetTagIds True initialised ?nt)"
    by (simp add: concrete_defs facade_defs transport_defs)
  have tab: "table initialised = Some ''XNav''"
    and fresh: "tag_subs initialised 7 = None"
    by (simp_all add: concrete_defs facade_defs transport_defs)
  have seven: "to_string 7 = ''7''"
    by (simp add: to_string_def digits.simps)
  note stale = GetPrimaryTarget_stale [OF bound feed narrow, where t = "''XNav''"]
  from stale small have same: "sint (7 :: c_int) = sint (7 :: int64_t)"
    by blast
  from stale nonneg tab obtain impl' ts
    where r: "GetPrimaryTarget True initialised ?nt =
                 Inr (\<lparr>TagResult.id = 7,
                       TagResult.tx = Get as_Double (TagSubs.tx ts) ?nt,
                       TagResult.ty = Get as_Double (TagSubs.ty ts) ?nt,
                       TagResult.x = Get as_Double (TagSubs.x ts) ?nt,
                       TagResult.y = Get as_Double (TagSubs.y ts) ?nt,
                       TagResult.z = Get as_Double (TagSubs.z ts) ?nt,
                       TagResult.distance = Get as_Double (TagSubs.distance ts) ?nt,
                       TagResult.yaw = Get as_Double (TagSubs.yaw ts) ?nt,
                       TagResult.pitch = Get as_Double (TagSubs.pitch ts) ?nt,
                       TagResult.roll = Get as_Double (TagSubs.roll ts) ?nt\<rparr>, impl')"
      and src: "tag_subs initialised 7 = Some ts
                  \<or> tag_subs initialised 7 = None
                    \<and> ts =
                      \<lparr>TagSubs.tx = \<lparr>sub_topic = Some (''XNav'' @ ''/targets/'' @ to_string 7 @ ''/tx''), sub_default = 0\<rparr>,
                       TagSubs.ty = \<lparr>sub_topic = Some (''XNav'' @ ''/targets/'' @ to_string 7 @ ''/ty''), sub_default = 0\<rparr>,
                       TagSubs.x = \<lparr>sub_topic = Some (''XNav'' @ ''/targets/'' @ to_string 7 @ ''/x''), sub_default = 0\<rparr>,
                       TagSubs.y = \<lparr>sub_topic = Some (''XNav'' @ ''/targets/'' @ to_string 7 @ ''/y''), sub_default = 0\<rparr>,
                       TagSubs.z = \<lparr>sub_topic = Some (''XNav'' @ ''/targets/'' @ to_string 7 @ ''/z''), sub_default = 0\<rparr>,
                       TagSubs.distance = \<lparr>sub_topic = Some (''XNav'' @ ''/targets/'' @ to_string 7 @ ''/distance''), sub_default = 0\<rparr>,
                       TagSubs.yaw = \<lparr>sub_topic = Some (''XNav'' @ ''/targets/'' @ to_string 7 @ ''/yaw''), sub_default = 0\<rparr>,
                       TagSubs.pitch = \<lparr>sub_topic = Some (''XNav'' @ ''/targets/'' @ to_string 7 @ ''/pitch''), sub_default = 0\<rparr>,
                       TagSubs.roll = \<lparr>sub_topic = Some (''XNav'' @ ''/targets/'' @ to_string 7 @ ''/roll''), sub_default = 0\<rparr>\<rparr>"
    by blast
  from src fresh have ts: "ts =
      \<lparr>TagSubs.tx = \<lparr>sub_topic = Some ''XNav/targets/7/tx'', sub_default = 0\<rparr>,
       TagSubs.ty = \<lparr>sub_topic = Some ''XNav/targets/7/ty'', sub_default = 0\<rparr>,
       TagSubs.x = \<lparr>sub_topic = Some ''XNav/targets/7/x'', sub_default = 0\<rparr>,
       TagSubs.y = \<lparr>sub_topic = Some ''XNav/targets/7/y'', sub_default = 0\<rparr>,
       TagSubs.z = \<lparr>sub_topic = Some ''XNav/targets/7/z'', sub_default = 0\<rparr>,
       TagSubs.distance = \<lparr>sub_topic = Some ''XNav/targets/7/distance'', sub_default = 0\<rparr>,
       TagSubs.yaw = \<lparr>sub_topic = Some ''XNav/targets/7/yaw'', sub_default = 0\<rparr>,
       TagSubs.pitch = \<lparr>sub_topic = Some ''XNav/targets/7/pitch'', sub_default = 0\<rparr>,
       TagSubs.roll = \<lparr>sub_topic = Some ''XNav/targets/7/roll'', sub_default = 0\<rparr>\<rparr>"
    by (simp add: seven)
  have primary: "returned (GetPrimaryTarget True initialised ?nt) =
     Inr \<lparr>TagResult.id = 7, TagResult.tx = 0, TagResult.ty = 0, TagResult.x = 0,
          TagResult.y = 0, TagResult.z = 0, TagResult.distance = 2.5, TagResult.yaw = 0,
          TagResult.pitch = 0, TagResult.roll = 0\<rparr>"
    unfolding r ts by (simp add: returned_def Get_Double published_def)
  from stale absent have lookup: "GetTarget True 7 initialised ?nt = Inr (None, initialised)"
    by blast
  from same primary lookup show ?thesis
    by - (intro conjI; assumption)
qed

text \<open>The claim as stated fails on a delivered id that does not fit an \<^verbatim>\<open>int\<close>. The id
  2147483648 is not negative on the feed, and \<^verbatim>\<open>GetPrimaryTarget()\<close> returns the default
  record, with id \<open>-1\<close>; for the delivered id 4294967303 it returns a record with id 7.\<close>

theorem GetPrimaryTarget_narrowing_counterexample:
  "0 \<le> sint (2147483648 :: int64_t)
   \<and> topics (published [(''XNav/primaryTagId'', Integer 2147483648)]) ''XNav/primaryTagId'' =
       Some (Integer 2147483648)
   \<and> returned (GetPrimaryTarget True initialised
        (published [(''XNav/primaryTagId'', Integer 2147483648)])) =
       Inr \<lparr>TagResult.id = - 1, TagResult.tx = 0, TagResult.ty = 0, TagResult.x = 0,
            TagResult.y = 0, TagResult.z = 0, TagResult.distance = 0, TagResult.yaw = 0,
            TagResult.pitch = 0, TagResult.roll = 0\<rparr>
   \<and> 0 \<le> sint (4294967303 :: int64_t)
   \<and> returned (GetPrimaryTarget True initialised
        (published [(''XNav/primaryTagId'', Integer 4294967303)])) =
       Inr \<lparr>TagResult.id = 7, TagResult.tx = 0, TagResult.ty = 0, TagResult.x = 0,
            TagResult.y = 0, TagResult.z = 0, TagResult.distance = 0, TagResult.yaw = 0,
            TagResult.pitch = 0, TagResult.roll = 0\<rparr>
   \<and> sint (7 :: c_int) \<noteq> sint (4294967303 :: int64_t)"
  by (simp add: concrete_defs facade_defs transport_defs)

text \<open>
  Claim C10. \<^verbatim>\<open>GetNumTargets()\<close>, and with it the \<open>num_targets\<close> field of \<^verbatim>\<open>GetStatus()\<close>,
  is the value of the \<^verbatim>\<open>numTargets\<close> topic narrowed to \<^verbatim>\<open>int\<close>; a publication on any other
  topic, \<^verbatim>\<open>tagIds\<close> among them, does not change it. So there are feed states in which
  \<^verbatim>\<open>GetNumTargets()\<close> differs from the length of \<^verbatim>\<open>GetTagIds()\<close> and from the length of
  \<^verbatim>\<open>GetAllTargets()\<close>.
\<close>

theorem GetNumTargets_own_feed:
  "GetNumTargets True impl nt = ucast (Get as_Integer (sub_num_targets impl) nt)
   \<and> num_targets (GetStatus True impl nt) = GetNumTargets True impl nt
   \<and> (sub_topic (sub_num_targets impl) \<noteq> Some p \<longrightarrow>
        GetNumTargets True impl (nt\<lparr>topics := (topics nt)(p \<mapsto> v)\<rparr>) = GetNumTargets True impl nt)
   \<and> (\<exists>(impl2 :: unit Impl) nt2.
         sint (GetNumTargets True impl2 nt2) \<noteq> int (length (GetTagIds True impl2 nt2))
       \<and> (\<exists>rs impl'. GetAllTargets True impl2 nt2 = Inr (rs, impl')
             \<and> sint (GetNumTargets True impl2 nt2) \<noteq> int (length rs)))"
proof (intro conjI impI)
  show "GetNumTargets True impl nt = ucast (Get as_Integer (sub_num_targets impl) nt)"
    by (simp add: GetNumTargets_def)
  show "num_targets (GetStatus True impl nt) = GetNumTargets True impl nt"
    by (simp add: GetStatus_def SystemStatus_default_def)
  show "GetNumTargets True impl (nt\<lparr>topics := (topics nt)(p \<mapsto> v)\<rparr>) = GetNumTargets True impl nt"
    if "sub_topic (sub_num_targets impl) \<noteq> Some p"
    using that by (auto simp: GetNumTargets_def Get_def Get_or_def split: option.splits)
  let ?nt = "published [(''XNav/numTargets'', Integer 2), (''XNav/tagIds'', IntegerArray [7])]"
  have a: "sint (GetNumTargets True initialised ?nt) = 2"
    by (simp add: concrete_defs facade_defs transport_defs)
  have b: "GetTagIds True initialised ?nt = [7]"
    by (simp add: concrete_defs facade_defs transport_defs)
  have "\<exists>rs impl'. GetAllTargets True initialised ?nt = Inr (rs, impl') \<and> length rs = 1"
    by (simp add: concrete_defs facade_defs transport_defs)
  with a b show "\<exists>(impl2 :: unit Impl) nt2.
         sint (GetNumTargets True impl2 nt2) \<noteq> int (length (GetTagIds True impl2 nt2))
       \<and> (\<exists>rs impl'. GetAllTargets True impl2 nt2 = Inr (rs, impl')
             \<and> sint (GetNumTargets True impl2 nt2) \<noteq> int (length rs))"
    by (intro exI [of _ initialised] exI [of _ ?nt]) auto
qed

text \<open>The tag list changes from one tag to three; the count stays the published 1.\<close>

theorem GetNumTargets_own_feed_witness:
  "sub_topic (sub_num_targets initialised) \<noteq> Some ''XNav/tagIds''
   \<and> GetNumTargets True initialised
       ((published [(''XNav/numTargets'', Integer 1), (''XNav/tagIds'', IntegerArray [7])])
          \<lparr>topics := (topics (published [(''XNav/numTargets'', Integer 1),
                                          (''XNav/tagIds'', IntegerArray [7])]))
                      (''XNav/tagIds'' \<mapsto> IntegerArray [7, 3, 4])\<rparr>) = 1
   \<and> length (GetTagIds True initialised
       ((published [(''XNav/numTargets'', Integer 1), (''XNav/tagIds'', IntegerArray [7])])
          \<lparr>topics := (topics (published [(''XNav/numTargets'', Integer 1),
                                          (''XNav/tagIds'', IntegerArray [7])]))
                      (''XNav/tagIds'' \<mapsto> IntegerArray [7, 3, 4])\<rparr>)) = 3"
proof -
  let ?nt = "published [(''XNav/numTargets'', Integer 1), (''XNav/tagIds'', IntegerArray [7])]"
  have other: "sub_topic (sub_num_targets initialised) \<noteq> Some ''XNav/tagIds''"
    by (simp add: concrete_defs facade_defs transport_defs)
  have before: "GetNumTargets True initialised ?nt = 1"
    by (simp add: concrete_defs facade_defs transport_defs)
  from GetNumTargets_own_feed [where impl = initialised and nt = ?nt and p = "''XNav/tagIds''"
      and v = "IntegerArray [7, 3, 4]"] other
  have "GetNumTargets True initialised
      (?nt\<lparr>topics := (topics ?nt)(''XNav/tagIds'' \<mapsto> IntegerArray [7, 3, 4])\<rparr>) =
      GetNumTargets True initialised ?nt"
    by blast
  with before have "GetNumTargets True initialised
      (?nt\<lparr>topics := (topics ?nt)(''XNav/tagIds'' \<mapsto> IntegerArray [7, 3, 4])\<rparr>) = 1"
    by simp
  moreover have "length (GetTagIds True initialised
      (?nt\<lparr>topics := (topics ?nt)(''XNav/tagIds'' \<mapsto> IntegerArray [7, 3, 4])\<rparr>)) = 3"
    by (simp add: concrete_defs facade_defs transport_defs)
  ultimately show ?thesis using other by simp
qed

end
